theory Spec2Isabelle
  imports Main "HOL-Library.Sublist" "HOL-Library.AList"
begin

section \<open>JavaScript strings\<close>

text \<open>
  A JavaScript string is modelled as a \<^typ>\<open>string\<close>: the sequence of its code units,
  for text whose code units are all below 256 (a \<^typ>\<open>char\<close> has eight bits). The
  operations below are the built-in string methods the sources call; each follows the
  method's definition on the sequence of code units.
\<close>

text \<open>\<^verbatim>\<open>s.startsWith(p)\<close>\<close>

fun startsWith :: "string \<Rightarrow> string \<Rightarrow> bool" where
  "startsWith s [] = True"
| "startsWith [] (c # p) = False"
| "startsWith (a # s) (c # p) = (a = c \<and> startsWith s p)"

text \<open>\<^verbatim>\<open>s.includes(p)\<close>: \<open>p\<close> occurs in \<open>s\<close> at some position.\<close>

fun includes_str :: "string \<Rightarrow> string \<Rightarrow> bool" where
  "includes_str [] p = (p = [])"
| "includes_str (a # s) p = (startsWith (a # s) p \<or> includes_str s p)"

text \<open>
  \<^verbatim>\<open>s.replace(pat, rep)\<close> with a string pattern: the first occurrence of \<open>pat\<close> is
  replaced, the rest of the string is kept.
\<close>

fun replace :: "string \<Rightarrow> string \<Rightarrow> string \<Rightarrow> string" where
  "replace [] pat rep = (if pat = [] then rep else [])"
| "replace (c # s) pat rep =
     (if startsWith (c # s) pat then rep @ drop (length pat) (c # s)
      else c # replace s pat rep)"

text \<open>
  White space as \<^verbatim>\<open>trim\<close> and \<^verbatim>\<open>parseFloat\<close> read it, among the code units below 256:
  tab, line feed, vertical tab, form feed, carriage return, space and the no-break space.
\<close>

definition is_space :: "char \<Rightarrow> bool" where
  "is_space c = (of_char c \<in> {9, 10, 11, 12, 13, 32, 160 :: nat})"

definition trim :: "string \<Rightarrow> string" where
  "trim s = rev (dropWhile is_space (rev (dropWhile is_space s)))"

definition is_digit :: "char \<Rightarrow> bool" where
  "is_digit c = (c \<in> set ''0123456789'')"

definition is_hex_digit :: "char \<Rightarrow> bool" where
  "is_hex_digit c = (c \<in> set ''0123456789abcdefABCDEF'')"

text \<open>\<^verbatim>\<open>s.replace(/[^0-9.]/g, "")\<close> and \<^verbatim>\<open>s.replace(/[^0-9]/g, "")\<close>\<close>

definition strip_non_numeric :: "string \<Rightarrow> string" where
  "strip_non_numeric s = filter (\<lambda>c. is_digit c \<or> c = CHR ''.'') s"

definition strip_non_digits :: "string \<Rightarrow> string" where
  "strip_non_digits s = filter is_digit s"

section \<open>JavaScript numbers read from text\<close>

text \<open>
  The sources never compute with a number: they read it with \<^verbatim>\<open>parseFloat\<close> or
  \<^verbatim>\<open>parseInt\<close> and emit it. A number is therefore kept as the numeric literal that
  was read (\<open>Lit\<close>), the double being a function of that literal, or \<open>NaN\<close> when the
  text starts with no literal.
\<close>

datatype number = NaN | Lit string

text \<open>An optional sign in front of the rest of the text.\<close>

definition split_sign :: "string \<Rightarrow> string \<times> string" where
  "split_sign t =
     (case t of
        [] \<Rightarrow> ([], [])
      | c # r \<Rightarrow> if c = CHR ''+'' \<or> c = CHR ''-'' then ([c], r) else ([], t))"

text \<open>
  The exponent part \<^verbatim>\<open>e\<close>, optional sign, digits at the head of a text, or nothing
  when the head is not a complete exponent part.
\<close>

definition exponent_part :: "string \<Rightarrow> string" where
  "exponent_part r =
     (case r of
        [] \<Rightarrow> []
      | e # r1 \<Rightarrow>
          if e = CHR ''e'' \<or> e = CHR ''E'' then
            (let (sg, r2) = split_sign r1; ds = takeWhile is_digit r2
             in if ds = [] then [] else e # sg @ ds)
          else [])"

text \<open>
  \<^verbatim>\<open>parseFloat(s)\<close>: leading white space is skipped, then the longest prefix that is
  a decimal literal (sign, \<^verbatim>\<open>Infinity\<close> or digits with an optional fraction and
  exponent) is read; \<open>NaN\<close> when there is none.
\<close>

definition parseFloat :: "string \<Rightarrow> number" where
  "parseFloat s =
     (let (sg, u) = split_sign (dropWhile is_space s) in
      if startsWith u ''Infinity'' then Lit (sg @ ''Infinity'')
      else
        (let ip = takeWhile is_digit u;
             r1 = dropWhile is_digit u;
             dot = startsWith r1 ''.'';
             fp = (if dot then takeWhile is_digit (drop 1 r1) else []);
             r2 = (if dot then dropWhile is_digit (drop 1 r1) else r1)
         in if ip = [] \<and> fp = [] then NaN
            else Lit (sg @ ip @ (if dot then ''.'' @ fp else []) @ exponent_part r2)))"

text \<open>
  \<^verbatim>\<open>parseInt(s)\<close> with no radix: leading white space and a sign are skipped, a prefix
  \<^verbatim>\<open>0x\<close> selects radix 16, then the longest prefix of digits is read.
\<close>

definition parseInt :: "string \<Rightarrow> number" where
  "parseInt s =
     (let (sg, u) = split_sign (dropWhile is_space s) in
      if startsWith u ''0x'' \<or> startsWith u ''0X'' then
        (let h = takeWhile is_hex_digit (drop 2 u)
         in if h = [] then NaN else Lit (sg @ ''0x'' @ h))
      else
        (let d = takeWhile is_digit u
         in if d = [] then NaN else Lit (sg @ d)))"

section \<open>JavaScript values and errors\<close>

text \<open>
  The data of a provider response: a JSON value, or \<^verbatim>\<open>undefined\<close>. An object is the
  list of its own properties.
\<close>

datatype jsval =
    JUndefined
  | JNull
  | JBool bool
  | JNum int
  | JStr string
  | JArr "jsval list"
  | JObj "(string \<times> jsval) list"

text \<open>The truth value of \<^verbatim>\<open>!v\<close> negated: what an \<^verbatim>\<open>if (v)\<close> tests.\<close>

fun truthy :: "jsval \<Rightarrow> bool" where
  "truthy JUndefined = False"
| "truthy JNull = False"
| "truthy (JBool b) = b"
| "truthy (JNum n) = (n \<noteq> 0)"
| "truthy (JStr s) = (s \<noteq> [])"
| "truthy (JArr xs) = True"
| "truthy (JObj kvs) = True"

text \<open>
  \<^verbatim>\<open>v?.key\<close> for a key that no built-in prototype defines: the property of an
  object, \<^verbatim>\<open>undefined\<close> for every other value.
\<close>

fun opt_prop :: "jsval \<Rightarrow> string \<Rightarrow> jsval" where
  "opt_prop (JObj kvs) key = (case map_of kvs key of None \<Rightarrow> JUndefined | Some v \<Rightarrow> v)"
| "opt_prop v key = JUndefined"

text \<open>
  A thrown value. Everything the sources and their libraries throw is an
  \<^verbatim>\<open>Error\<close> object; \<open>message\<close> is its \<^verbatim>\<open>message\<close> property.
\<close>

datatype error = Error string | TypeError string | URIError string

fun message :: "error \<Rightarrow> string" where
  "message (Error m) = m"
| "message (TypeError m) = m"
| "message (URIError m) = m"

text \<open>
  \<^verbatim>\<open>v.key\<close> without optional chaining: reading a property of \<^verbatim>\<open>undefined\<close> or
  \<^verbatim>\<open>null\<close> throws a \<^verbatim>\<open>TypeError\<close>.
\<close>

definition get_prop :: "jsval \<Rightarrow> string \<Rightarrow> error + jsval" where
  "get_prop v key =
     (if v = JUndefined
      then Inl (TypeError (''Cannot read properties of undefined (reading '' @ [CHR 0x27] @ key @ [CHR 0x27] @ '')''))
      else if v = JNull
      then Inl (TypeError (''Cannot read properties of null (reading '' @ [CHR 0x27] @ key @ [CHR 0x27] @ '')''))
      else Inr (opt_prop v key))"

section \<open>The libraries the sources call\<close>

text \<open>
  The loaded document \<^verbatim>\<open>$\<close> of cheerio, as the interface the scraper uses. A value of
  type \<open>'s\<close> is a selection (a cheerio object).
  \<^item> \<open>select\<close>: \<^verbatim>\<open>$(selector)\<close>;
  \<^item> \<open>each\<close>: the elements of a selection in document order, each wrapped as
    \<^verbatim>\<open>$(element)\<close>, as the callback of \<^verbatim>\<open>.each\<close> receives them;
  \<^item> \<open>find_in\<close>: \<^verbatim>\<open>.find(selector)\<close>; \<open>first_of\<close>: \<^verbatim>\<open>.first()\<close>;
  \<^item> \<open>text_of\<close>: \<^verbatim>\<open>.text()\<close>; \<open>attr\<close>: \<^verbatim>\<open>.attr(name)\<close>, \<open>None\<close> for
    \<^verbatim>\<open>undefined\<close>; \<open>hasClass\<close>: \<^verbatim>\<open>.hasClass(name)\<close>.
\<close>

record 's cheerio =
  select :: "string \<Rightarrow> 's"
  each :: "'s \<Rightarrow> 's list"
  find_in :: "'s \<Rightarrow> string \<Rightarrow> 's"
  first_of :: "'s \<Rightarrow> 's"
  text_of :: "'s \<Rightarrow> string"
  attr :: "'s \<Rightarrow> string \<Rightarrow> string option"
  hasClass :: "'s \<Rightarrow> string \<Rightarrow> bool"

text \<open>
  The library functions, as parameters of the model:
  \<^item> \<open>load\<close>: \<^verbatim>\<open>cheerio.load(html)\<close>;
  \<^item> \<open>origin\<close> and \<open>hostname\<close>: \<^verbatim>\<open>new URL(u).origin\<close> and
    \<^verbatim>\<open>new URL(u).hostname\<close>, \<open>None\<close> when the constructor throws its
    \<^verbatim>\<open>TypeError\<close> (the text is not a URL);
  \<^item> \<open>encodeURIComponent\<close>, \<open>None\<close> when it throws its \<^verbatim>\<open>URIError\<close>.
\<close>

record 's lib =
  load :: "string \<Rightarrow> 's cheerio"
  origin :: "string \<Rightarrow> string option"
  hostname :: "string \<Rightarrow> string option"
  encodeURIComponent :: "string \<Rightarrow> string option"

section \<open>The scraper service\<close>

text \<open>
  The class \<^verbatim>\<open>ScraperService\<close> (source file \<^verbatim>\<open>unnamed/part_001\<close>): one detail parser
  and one search parser per platform, and the two methods that dispatch on the platform
  tag.
\<close>

text \<open>
  The object a search parser pushes. \<open>sr_image\<close> is \<open>None\<close> when
  \<^verbatim>\<open>.attr("src")\<close> is \<^verbatim>\<open>undefined\<close>; \<open>sr_rating\<close> and \<open>sr_reviews\<close> are keys
  of the Amazon parser only.
\<close>

record SearchResult =
  sr_currency :: string
  sr_image :: "string option"
  sr_name :: string
  sr_platform :: string
  sr_price :: number
  sr_rating :: "number option"
  sr_reviews :: "number option"
  sr_url :: string

record Variant =
  v_available :: bool
  v_name :: string
  v_price :: "number option"

text \<open>
  The object a detail parser returns. A field is \<open>None\<close> where the parser of the
  platform writes no such key. \<open>pr_specifications\<close> is the object built by assignments
  \<^verbatim>\<open>specifications[label] = value\<close>, as the list of its properties.
\<close>

record ProductRecord =
  pr_availability :: "string option"
  pr_brand :: "string option"
  pr_currency :: string
  pr_description :: string
  pr_image :: "string option"
  pr_name :: string
  pr_platform :: string
  pr_price :: number
  pr_rating :: "number option"
  pr_seller :: "string option"
  pr_specifications :: "(string \<times> string) list"
  pr_url :: string
  pr_variants :: "Variant list option"

text \<open>
  The keys that are array indices: the canonical decimal numerals below \<open>2^32 - 1\<close>.
  An object lists these keys first, in ascending order, and its other keys after them
  in the order of their creation.
\<close>

definition array_index :: "string \<Rightarrow> int option" where
  "array_index k =
     (let n = foldl (\<lambda>a c. 10 * a + (of_char c - 48)) 0 k
      in if k \<noteq> [] \<and> list_all is_digit k \<and> (if startsWith k ''0'' then k = ''0'' else True)
            \<and> n < 4294967295
         then Some n else None)"

fun insert_index :: "int \<Rightarrow> string \<times> string \<Rightarrow> (string \<times> string) list \<Rightarrow> (string \<times> string) list" where
  "insert_index n kv [] = [kv]"
| "insert_index n kv (p # ps) =
     (case array_index (fst p) of
        None \<Rightarrow> kv # p # ps
      | Some m \<Rightarrow> if n < m then kv # p # ps else p # insert_index n kv ps)"

text \<open>
  \<^verbatim>\<open>obj[key] = value\<close> on an object created by \<^verbatim>\<open>{}\<close>, for a string value, the
  object being the list of its own properties in the order it lists them. An existing
  property keeps its place; the key \<^verbatim>\<open>__proto__\<close> is the accessor of the prototype,
  whose setter ignores a string, so no property is created.
\<close>

definition set_property :: "(string \<times> string) list \<Rightarrow> string \<Rightarrow> string \<Rightarrow> (string \<times> string) list" where
  "set_property obj key val =
     (if key = ''__proto__'' then obj
      else if map_of obj key \<noteq> None then AList.update key val obj
      else (case array_index key of
              None \<Rightarrow> obj @ [(key, val)]
            | Some n \<Rightarrow> insert_index n (key, val) obj))"

text \<open>
  The loop every detail parser runs over the rows of a specification table:
  \<^verbatim>\<open>$(rows).each((_, elem) => { label = $(elem).find(l).text().trim(); value =
  $(elem).find(v).text().trim(); if (label && value) specifications[label] = value })\<close>.
\<close>

definition spec_rows :: "'s cheerio \<Rightarrow> string \<Rightarrow> string \<Rightarrow> string \<Rightarrow> (string \<times> string) list" where
  "spec_rows C rows l v =
     foldl (\<lambda>specifications elem.
         let label = trim (text_of C (find_in C elem l));
             val = trim (text_of C (find_in C elem v))
         in if label \<noteq> [] \<and> val \<noteq> [] then set_property specifications label val
            else specifications)
       [] (each C (select C rows))"

text \<open>
  \<^verbatim>\<open>href ? (href.startsWith("http") ? href : baseUrl + href) : ""\<close>, the URL of the
  parsers that test the link.
\<close>

definition resolve_href :: "string \<Rightarrow> string option \<Rightarrow> string" where
  "resolve_href baseUrl href =
     (case href of
        None \<Rightarrow> []
      | Some h \<Rightarrow> if h = [] then [] else if startsWith h ''http'' then h else baseUrl @ h)"

text \<open>
  \<^verbatim>\<open>baseUrl + $el.find("a").attr("href")\<close>, the URL of the parsers that do not test
  the link: string concatenation writes \<^verbatim>\<open>undefined\<close> as the text "undefined".
\<close>

definition concat_href :: "string \<Rightarrow> string option \<Rightarrow> string" where
  "concat_href baseUrl href = baseUrl @ (case href of None \<Rightarrow> ''undefined'' | Some h \<Rightarrow> h)"

definition parseAmazonProduct :: "'s cheerio \<Rightarrow> string \<Rightarrow> ProductRecord" where
  "parseAmazonProduct C baseUrl =
     (let name = trim (text_of C (select C ''#productTitle''));
          priceWhole = strip_non_numeric
            (trim (text_of C (select C ''#priceblock_ourprice, #price_inside_buybox'')));
          description = trim (text_of C (select C ''#feature-bullets, #productDescription''));
          brand = trim (text_of C (select C ''#bylineInfo''));
          rating = parseFloat (text_of C (select C ''#averageCustomerReviews .a-icon-alt''));
          availability = trim (text_of C (select C ''#availability''));
          seller = trim (text_of C (select C ''#merchant-info''));
          image = attr C (select C ''#landingImage'') ''src'';
          specifications = spec_rows C ''#productDetails_techSpec_section_1 tr'' ''th'' ''td'';
          variants = List.map_filter (\<lambda>elem.
              let variant = \<lparr>v_available = \<not> hasClass C elem ''swatchUnavailable'',
                             v_name = (case attr C elem ''title'' of None \<Rightarrow> [] | Some t \<Rightarrow> t),
                             v_price = Some (parseFloat (strip_non_numeric
                               (text_of C (find_in C elem ''.a-color-price''))))\<rparr>
              in if v_name variant \<noteq> [] then Some variant else None)
            (each C (select C ''#variation_color_name .swatches li''))
      in \<lparr>pr_availability = Some availability, pr_brand = Some brand, pr_currency = ''USD'',
          pr_description = description, pr_image = image, pr_name = name,
          pr_platform = ''amazon'', pr_price = parseFloat priceWhole, pr_rating = Some rating,
          pr_seller = Some seller, pr_specifications = specifications, pr_url = baseUrl,
          pr_variants = Some variants\<rparr>)"

definition parseAmazonSearch :: "'s cheerio \<Rightarrow> string \<Rightarrow> SearchResult list" where
  "parseAmazonSearch C baseUrl =
     List.map_filter (\<lambda>el.
         let name = trim (text_of C (find_in C el ''h2 span''));
             priceWhole = trim (text_of C (first_of C (find_in C el ''.a-price-whole'')));
             priceFraction = trim (text_of C (first_of C (find_in C el ''.a-price-fraction'')));
             rating = parseFloat
               (text_of C (first_of C (find_in C el ''.a-icon-star-small .a-icon-alt'')));
             reviews = parseInt (strip_non_digits
               (text_of C (first_of C (find_in C el ''.a-size-base.s-underline-text''))));
             href = attr C (find_in C el ''h2 a'') ''href'';
             url = resolve_href baseUrl href;
             image = attr C (find_in C el ''img.s-image'') ''src''
         in if name \<noteq> [] \<and> (priceWhole \<noteq> [] \<or> priceFraction \<noteq> []) \<and> url \<noteq> []
            then Some \<lparr>sr_currency = ''USD'', sr_image = image, sr_name = name,
                       sr_platform = ''amazon'',
                       sr_price = parseFloat (priceWhole @ ''.'' @ priceFraction),
                       sr_rating = Some rating, sr_reviews = Some reviews, sr_url = url\<rparr>
            else None)
       (each C (select C ''.s-result-item[data-asin]''))"

definition parseBestBuyProduct :: "'s cheerio \<Rightarrow> string \<Rightarrow> ProductRecord" where
  "parseBestBuyProduct C baseUrl =
     (let name = trim (text_of C (select C ''.sku-title h1''));
          priceText = strip_non_numeric
            (text_of C (first_of C (select C ''.priceView-customer-price span'')));
          description = trim (text_of C (select C ''.product-description''));
          brand = trim (text_of C (first_of C (select C ''.product-data-value'')));
          availability = trim (text_of C (select C ''.fulfillment-add-to-cart-button''));
          image = attr C (select C ''.primary-image'') ''src'';
          specifications = spec_rows C ''.product-data-item'' ''.product-data-key''
            ''.product-data-value''
      in \<lparr>pr_availability = Some availability, pr_brand = Some brand, pr_currency = ''USD'',
          pr_description = description, pr_image = image, pr_name = name,
          pr_platform = ''bestbuy'', pr_price = parseFloat priceText, pr_rating = None,
          pr_seller = None, pr_specifications = specifications, pr_url = baseUrl,
          pr_variants = None\<rparr>)"

definition parseBestBuySearch :: "'s cheerio \<Rightarrow> string \<Rightarrow> SearchResult list" where
  "parseBestBuySearch C baseUrl =
     List.map_filter (\<lambda>el.
         let name = trim (text_of C (find_in C el ''.sku-header''));
             priceText = replace (replace
               (text_of C (first_of C (find_in C el ''.priceView-customer-price span'')))
               ''$'' []) '','' [];
             href = attr C (find_in C el ''.sku-header a'') ''href'';
             url = resolve_href baseUrl href;
             image = attr C (find_in C el ''img.product-image'') ''src''
         in if name \<noteq> [] \<and> priceText \<noteq> [] \<and> url \<noteq> []
            then Some \<lparr>sr_currency = ''USD'', sr_image = image, sr_name = name,
                       sr_platform = ''bestbuy'', sr_price = parseFloat priceText,
                       sr_rating = None, sr_reviews = None, sr_url = url\<rparr>
            else None)
       (each C (select C ''.sku-item''))"

definition parseEbayProduct :: "'s cheerio \<Rightarrow> string \<Rightarrow> ProductRecord" where
  "parseEbayProduct C baseUrl =
     (let name = trim (replace (text_of C (select C ''#itemTitle'')) ''Details about'' []);
          priceText = strip_non_numeric (trim (text_of C (select C ''#prcIsum'')));
          description = trim (text_of C (select C ''#ds_div''));
          seller = trim (text_of C (select C ''.mbg-nw''));
          availability = trim (text_of C (select C ''#qtySubTxt''));
          image = attr C (select C ''#icImg'') ''src'';
          condition = trim (text_of C (select C ''#vi-itm-cond''));
          specifications = spec_rows C ''.itemAttr table tr'' ''th'' ''td''
      in \<lparr>pr_availability = Some availability, pr_brand = None, pr_currency = ''USD'',
          pr_description = description, pr_image = image, pr_name = name,
          pr_platform = ''ebay'', pr_price = parseFloat priceText, pr_rating = None,
          pr_seller = Some seller,
          pr_specifications = set_property specifications ''condition'' condition,
          pr_url = baseUrl, pr_variants = None\<rparr>)"

definition parseEbaySearch :: "'s cheerio \<Rightarrow> string \<Rightarrow> SearchResult list" where
  "parseEbaySearch C baseUrl =
     List.map_filter (\<lambda>el.
         let name = trim (text_of C (find_in C el ''.s-item__title''));
             priceText = replace (replace
               (trim (text_of C (find_in C el ''.s-item__price''))) ''$'' []) '','' [];
             href = attr C (find_in C el ''.s-item__link'') ''href'';
             url = resolve_href baseUrl href;
             image = attr C (find_in C el ''.s-item__image-img'') ''src''
         in if name \<noteq> [] \<and> priceText \<noteq> [] \<and> url \<noteq> []
            then Some \<lparr>sr_currency = ''USD'', sr_image = image, sr_name = name,
                       sr_platform = ''ebay'', sr_price = parseFloat priceText,
                       sr_rating = None, sr_reviews = None, sr_url = url\<rparr>
            else None)
       (each C (select C ''.s-item''))"

definition parseEtsyProduct :: "'s cheerio \<Rightarrow> string \<Rightarrow> ProductRecord" where
  "parseEtsyProduct C baseUrl =
     (let name = trim (text_of C (first_of C (select C ''.wt-text-body-01'')));
          priceText = strip_non_numeric (text_of C (first_of C (select C ''.wt-text-title-03'')));
          description = trim (text_of C (select C ''#product-description-content''));
          seller = trim (text_of C (select C ''.shop-name-and-title-container''));
          image = attr C (first_of C (select C ''.carousel-image'')) ''src'';
          specifications = spec_rows C ''.wt-grid__item-xs-12'' ''.wt-text-caption''
            ''.wt-text-body-01''
      in \<lparr>pr_availability = None, pr_brand = None, pr_currency = ''USD'',
          pr_description = description, pr_image = image, pr_name = name,
          pr_platform = ''etsy'', pr_price = parseFloat priceText, pr_rating = None,
          pr_seller = Some seller, pr_specifications = specifications, pr_url = baseUrl,
          pr_variants = None\<rparr>)"

definition parseEtsySearch :: "'s cheerio \<Rightarrow> string \<Rightarrow> SearchResult list" where
  "parseEtsySearch C baseUrl =
     List.map_filter (\<lambda>el.
         let name = trim (text_of C (find_in C el ''.v2-listing-card__title''));
             priceText = replace
               (text_of C (first_of C (find_in C el ''.currency-value''))) '','' [];
             href = attr C (find_in C el ''.listing-link'') ''href'';
             url = resolve_href baseUrl href;
             image = attr C (find_in C el ''img.main-image'') ''src''
         in if name \<noteq> [] \<and> priceText \<noteq> [] \<and> url \<noteq> []
            then Some \<lparr>sr_currency = ''USD'', sr_image = image, sr_name = name,
                       sr_platform = ''etsy'', sr_price = parseFloat priceText,
                       sr_rating = None, sr_reviews = None, sr_url = url\<rparr>
            else None)
       (each C (select C ''.v2-listing-card''))"

definition parseHomeDepotProduct :: "'s cheerio \<Rightarrow> string \<Rightarrow> ProductRecord" where
  "parseHomeDepotProduct C baseUrl =
     (let name = trim (text_of C (select C ''.product-title__title''));
          priceText = strip_non_numeric (text_of C (select C ''.price-format__main-price''));
          description = trim (text_of C (select C ''.product-description''));
          brand = trim (text_of C (select C ''.product-details__brand-name''));
          availability = trim (text_of C (select C ''.product-availability''));
          image = attr C (select C ''.highlight-image'') ''src'';
          specifications = spec_rows C ''.specifications__list li'' ''.specifications__name''
            ''.specifications__value''
      in \<lparr>pr_availability = Some availability, pr_brand = Some brand, pr_currency = ''USD'',
          pr_description = description, pr_image = image, pr_name = name,
          pr_platform = ''homedepot'', pr_price = parseFloat priceText, pr_rating = None,
          pr_seller = None, pr_specifications = specifications, pr_url = baseUrl,
          pr_variants = None\<rparr>)"

definition parseHomeDepotSearch :: "'s cheerio \<Rightarrow> string \<Rightarrow> SearchResult list" where
  "parseHomeDepotSearch C baseUrl =
     List.map_filter (\<lambda>el.
         let name = trim (text_of C (find_in C el ''.product-pod--title''));
             priceText = replace (replace
               (text_of C (find_in C el ''.price__dollars'')) ''$'' []) '','' [];
             href = attr C (find_in C el ''.product-pod--link'') ''href'';
             url = resolve_href baseUrl href;
             image = attr C (find_in C el ''.product-pod--photo img'') ''src''
         in if name \<noteq> [] \<and> priceText \<noteq> [] \<and> url \<noteq> []
            then Some \<lparr>sr_currency = ''USD'', sr_image = image, sr_name = name,
                       sr_platform = ''homedepot'', sr_price = parseFloat priceText,
                       sr_rating = None, sr_reviews = None, sr_url = url\<rparr>
            else None)
       (each C (select C ''.product-pod''))"

definition parseWalmartProduct :: "'s cheerio \<Rightarrow> string \<Rightarrow> ProductRecord" where
  "parseWalmartProduct C baseUrl =
     (let name = trim (text_of C (select C ''[data-testid=\"product-title\"]''));
          priceText = strip_non_numeric
            (trim (text_of C (select C ''[data-testid=\"price-value\"]'')));
          description = trim (text_of C (select C ''.about-product''));
          availability = trim (text_of C (select C ''.prod-ProductOffer-oosMsg''));
          seller = trim (text_of C (select C ''.seller-name''));
          image = attr C (select C ''[data-testid=\"hero-image\"]'') ''src'';
          specifications = spec_rows C ''.specification-table td'' ''.specification-label''
            ''.specification-value''
      in \<lparr>pr_availability = Some availability, pr_brand = None, pr_currency = ''USD'',
          pr_description = description, pr_image = image, pr_name = name,
          pr_platform = ''walmart'', pr_price = parseFloat priceText, pr_rating = None,
          pr_seller = Some seller, pr_specifications = specifications, pr_url = baseUrl,
          pr_variants = None\<rparr>)"

definition parseWalmartSearch :: "'s cheerio \<Rightarrow> string \<Rightarrow> SearchResult list" where
  "parseWalmartSearch C baseUrl =
     List.map_filter (\<lambda>el.
         let name = trim (text_of C (find_in C el ''[data-automation-id=\"product-title\"]''));
             priceText = replace (replace
               (text_of C (find_in C el ''[data-automation-id=\"product-price\"]''))
               ''$'' []) '','' [];
             url = concat_href baseUrl (attr C (find_in C el ''a'') ''href'');
             image = attr C (find_in C el ''img'') ''src''
         in if name \<noteq> [] \<and> priceText \<noteq> []
            then Some \<lparr>sr_currency = ''USD'', sr_image = image, sr_name = name,
                       sr_platform = ''walmart'', sr_price = parseFloat priceText,
                       sr_rating = None, sr_reviews = None, sr_url = url\<rparr>
            else None)
       (each C (select C ''[data-item-id]''))"

definition parseZaraProduct :: "'s cheerio \<Rightarrow> string \<Rightarrow> ProductRecord" where
  "parseZaraProduct C baseUrl =
     (let name = trim (text_of C (select C ''.product-detail-info__header h1''));
          priceText = strip_non_numeric (text_of C (select C ''.price__amount''));
          description = trim (text_of C (select C ''.product-detail-description''));
          availability = trim (text_of C (select C ''.product-detail-size-info''));
          image = attr C (first_of C (select C ''.product-detail-images img'')) ''src'';
          specifications = spec_rows C ''.product-detail-info__content''
            ''.product-detail-info__title'' ''.product-detail-info__content'';
          variants = map (\<lambda>elem.
              \<lparr>v_available = \<not> hasClass C elem ''is-disabled'',
               v_name = trim (text_of C elem), v_price = None\<rparr>)
            (each C (select C ''.size-selector__size-list button''))
      in \<lparr>pr_availability = Some availability, pr_brand = None, pr_currency = ''USD'',
          pr_description = description, pr_image = image, pr_name = name,
          pr_platform = ''zara'', pr_price = parseFloat priceText, pr_rating = None,
          pr_seller = None, pr_specifications = specifications, pr_url = baseUrl,
          pr_variants = Some variants\<rparr>)"

definition parseZaraSearch :: "'s cheerio \<Rightarrow> string \<Rightarrow> SearchResult list" where
  "parseZaraSearch C baseUrl =
     List.map_filter (\<lambda>el.
         let name = trim (text_of C (find_in C el ''.product-grid-product-info__name''));
             priceText = replace (replace
               (text_of C (find_in C el ''.price-current__amount'')) ''$'' []) '','' [];
             url = concat_href baseUrl (attr C (find_in C el ''a'') ''href'');
             image = attr C (find_in C el ''img'') ''src''
         in if name \<noteq> [] \<and> priceText \<noteq> []
            then Some \<lparr>sr_currency = ''USD'', sr_image = image, sr_name = name,
                       sr_platform = ''zara'', sr_price = parseFloat priceText,
                       sr_rating = None, sr_reviews = None, sr_url = url\<rparr>
            else None)
       (each C (select C ''.product-grid-product''))"

text \<open>
  \<^verbatim>\<open>parseProductDetails(html, platform, url)\<close>: the document is loaded and the origin
  of \<open>url\<close> is read before the \<^verbatim>\<open>switch\<close>; the \<^verbatim>\<open>default\<close> case throws.
\<close>

definition parseProductDetails :: "'s lib \<Rightarrow> string \<Rightarrow> string \<Rightarrow> string \<Rightarrow> error + ProductRecord" where
  "parseProductDetails L html platform url =
     (let C = load L html in
      case origin L url of
        None \<Rightarrow> Inl (TypeError ''Invalid URL'')
      | Some baseUrl \<Rightarrow>
          if platform = ''amazon'' then Inr (parseAmazonProduct C baseUrl)
          else if platform = ''bestbuy'' then Inr (parseBestBuyProduct C baseUrl)
          else if platform = ''ebay'' then Inr (parseEbayProduct C baseUrl)
          else if platform = ''etsy'' then Inr (parseEtsyProduct C baseUrl)
          else if platform = ''homedepot'' then Inr (parseHomeDepotProduct C baseUrl)
          else if platform = ''walmart'' then Inr (parseWalmartProduct C baseUrl)
          else if platform = ''zara'' then Inr (parseZaraProduct C baseUrl)
          else Inl (Error (''Unsupported platform: '' @ platform)))"

text \<open>
  \<^verbatim>\<open>parseSearchResults(html, platform, baseUrl)\<close>: the \<^verbatim>\<open>default\<close> case returns
  the empty array.
\<close>

definition parseSearchResults :: "'s lib \<Rightarrow> string \<Rightarrow> string \<Rightarrow> string \<Rightarrow> SearchResult list" where
  "parseSearchResults L html platform baseUrl =
     (let C = load L html in
      if platform = ''amazon'' then parseAmazonSearch C baseUrl
      else if platform = ''bestbuy'' then parseBestBuySearch C baseUrl
      else if platform = ''ebay'' then parseEbaySearch C baseUrl
      else if platform = ''etsy'' then parseEtsySearch C baseUrl
      else if platform = ''homedepot'' then parseHomeDepotSearch C baseUrl
      else if platform = ''walmart'' then parseWalmartSearch C baseUrl
      else if platform = ''zara'' then parseZaraSearch C baseUrl
      else [])"

section \<open>The scraping provider\<close>

text \<open>
  This section and the next three follow the server of the build
  (\<^verbatim>\<open>build/src/server.js\<close>), the generation of the tool surface that calls the scraper
  service.
\<close>

text \<open>
  The requests the server sends with \<^verbatim>\<open>axios\<close>. The bearer credential, the user agent
  and the zone are the same in every request and are left out.
  \<^item> \<open>RawContent url\<close>: \<^verbatim>\<open>POST /request\<close> with \<^verbatim>\<open>{format: "raw", url, zone}\<close>;
  \<^item> \<open>Trigger url dataset_id\<close>: \<^verbatim>\<open>POST /datasets/v3/trigger\<close>;
  \<^item> \<open>Progress snapshot_id\<close>: \<^verbatim>\<open>GET /datasets/v3/progress/${snapshot_id}\<close>;
  \<^item> \<open>Snapshot snapshot_id\<close>: \<^verbatim>\<open>GET /datasets/v3/snapshot/${snapshot_id}\<close>.
\<close>

datatype request =
    RawContent string
  | Trigger string string
  | Progress jsval
  | Snapshot jsval

text \<open>
  What awaiting a request gives: the promise rejects with an error of the given
  message, or resolves with a response of the given \<^verbatim>\<open>data\<close>.
\<close>

datatype response = Rejected string | Resolved jsval

text \<open>
  The world outside the server: the responses the provider will give, in the order of
  the requests (\<open>pending\<close>), the requests sent so far (\<open>sent\<close>) and the lines written
  with \<^verbatim>\<open>console.log\<close>. A request sent when no response is left is rejected.
\<close>

record world =
  pending :: "response list"
  sent :: "request list"
  console :: "string list"

definition axios :: "request \<Rightarrow> world \<Rightarrow> response \<times> world" where
  "axios req w =
     (case pending w of
        [] \<Rightarrow> (Rejected ''Network Error'', w\<lparr>sent := sent w @ [req]\<rparr>)
      | r # rs \<Rightarrow> (r, w\<lparr>pending := rs, sent := sent w @ [req]\<rparr>))"

text \<open>
  The raw-content request asks for \<^verbatim>\<open>responseType: "text"\<close>: the data of its response
  is the text of the body.
\<close>

fun body_text :: "jsval \<Rightarrow> string" where
  "body_text (JStr s) = s"
| "body_text v = []"

section \<open>The server's helper functions\<close>

text \<open>
  \<^verbatim>\<open>detect_platform(url)\<close> of the server: seven \<^verbatim>\<open>url.includes(...)\<close> tests in the
  order of the source, the first that succeeds returns.
\<close>

definition detect_platform :: "string \<Rightarrow> string" where
  "detect_platform url =
     (if includes_str url ''amazon.'' then ''amazon''
      else if includes_str url ''ebay.'' then ''ebay''
      else if includes_str url ''walmart.'' then ''walmart''
      else if includes_str url ''etsy.'' then ''etsy''
      else if includes_str url ''bestbuy.'' then ''bestbuy''
      else if includes_str url ''homedepot.'' then ''homedepot''
      else if includes_str url ''zara.'' then ''zara''
      else ''unknown'')"

text \<open>
  \<^verbatim>\<open>get_dataset_id(platform)\<close>: \<^verbatim>\<open>dataset_map[platform] || undefined\<close>. The entry of
  "unknown" is the empty string, which \<^verbatim>\<open>||\<close> turns into \<^verbatim>\<open>undefined\<close>.
\<close>

definition dataset_map :: "(string \<times> string) list" where
  "dataset_map =
     [(''amazon'', ''gd_l7q7dkf244hwjntr0''),
      (''bestbuy'', ''gd_ltre1jqe1jfr7cccf''),
      (''ebay'', ''gd_ltr9mjt81n0zzdk1fb''),
      (''etsy'', ''gd_ltppk0jdv1jqz25mz''),
      (''homedepot'', ''gd_lmusivh019i7g97q2n''),
      (''unknown'', []),
      (''walmart'', ''gd_l95fol7l1ru6rlo116''),
      (''zara'', ''gd_lct4vafw1tgx27d4o0'')]"

definition get_dataset_id :: "string \<Rightarrow> string option" where
  "get_dataset_id platform =
     (case map_of dataset_map platform of
        None \<Rightarrow> None
      | Some d \<Rightarrow> if d = [] then None else Some d)"

section \<open>The tool \<open>get_product_details\<close>\<close>

text \<open>
  The envelope \<^verbatim>\<open>{data, method, platform, url}\<close>. Its data is the payload of the
  dataset snapshot or the record the scraper parsed. The tool returns the JSON text of
  the envelope; the model keeps the envelope.
\<close>

datatype payload = Structured jsval | Scraped ProductRecord

record ProductData =
  pd_data :: payload
  pd_method :: string
  pd_platform :: string
  pd_url :: string

definition max_attempts :: nat where
  "max_attempts = 30"

text \<open>
  The polling loop \<^verbatim>\<open>for (let i = 0; i < max_attempts; i++)\<close> from the value \<open>i\<close> of
  its counter on. Each round waits two seconds (no value depends on the wait, which is
  left out), asks for the progress and reads \<^verbatim>\<open>status_response.data.status\<close>:
  "running" continues with the next round, "failed" throws, everything else fetches the
  snapshot and returns. The loop left by its condition throws the timeout.
\<close>

function poll_results :: "string \<Rightarrow> string \<Rightarrow> jsval \<Rightarrow> nat \<Rightarrow> world \<Rightarrow> (error + ProductData) \<times> world" where
  "poll_results platform url snapshot_id i w =
     (if i < max_attempts then
        (case axios (Progress snapshot_id) w of
           (Rejected m, w1) \<Rightarrow> (Inl (Error m), w1)
         | (Resolved d, w1) \<Rightarrow>
             (case get_prop d ''status'' of
                Inl e \<Rightarrow> (Inl e, w1)
              | Inr status \<Rightarrow>
                  if status = JStr ''running'' then
                    poll_results platform url snapshot_id (Suc i) w1
                  else if status = JStr ''failed'' then
                    (Inl (Error ''Dataset collection failed''), w1)
                  else
                    (case axios (Snapshot snapshot_id) w1 of
                       (Rejected m, w2) \<Rightarrow> (Inl (Error m), w2)
                     | (Resolved r, w2) \<Rightarrow>
                         (Inr \<lparr>pd_data = Structured r, pd_method = ''structured_dataset'',
                               pd_platform = platform, pd_url = url\<rparr>, w2))))
      else (Inl (Error ''Timeout waiting for dataset results''), w))"
  by pat_completeness auto
termination
  by (relation "measure (\<lambda>(platform, url, snapshot_id, i, w). max_attempts - i)") auto

text \<open>
  \<^verbatim>\<open>execute\<close> of the tool: without a dataset id, one raw-content request whose body the
  scraper parses; with one, the trigger request, the test of its snapshot identifier,
  and the polling loop.
\<close>

definition get_product_details :: "'s lib \<Rightarrow> string \<Rightarrow> world \<Rightarrow> (error + ProductData) \<times> world" where
  "get_product_details L url w =
     (let platform = detect_platform url;
          dataset_id = get_dataset_id platform
      in case dataset_id of
           None \<Rightarrow>
             (case axios (RawContent url) w of
                (Rejected m, w1) \<Rightarrow> (Inl (Error m), w1)
              | (Resolved d, w1) \<Rightarrow>
                  (case origin L url of
                     None \<Rightarrow> (Inl (TypeError ''Invalid URL''), w1)
                   | Some baseUrl \<Rightarrow>
                       (case parseProductDetails L (body_text d) platform baseUrl of
                          Inl e \<Rightarrow> (Inl e, w1)
                        | Inr parsedProduct \<Rightarrow>
                            (Inr \<lparr>pd_data = Scraped parsedProduct, pd_method = ''scraping'',
                                  pd_platform = platform, pd_url = url\<rparr>, w1))))
         | Some did \<Rightarrow>
             (case axios (Trigger url did) w of
                (Rejected m, w1) \<Rightarrow> (Inl (Error m), w1)
              | (Resolved d, w1) \<Rightarrow>
                  if \<not> truthy (opt_prop d ''snapshot_id'')
                  then (Inl (Error ''Failed to trigger dataset collection''), w1)
                  else poll_results platform url (opt_prop d ''snapshot_id'') 0 w1))"

section \<open>The batch tools\<close>

text \<open>
  The \<^verbatim>\<open>switch\<close> of \<open>search_products\<close> that builds the search URL; a platform
  with no case leaves the empty string. \<open>None\<close> when \<^verbatim>\<open>encodeURIComponent\<close> throws.
\<close>

definition search_url_of :: "'s lib \<Rightarrow> string \<Rightarrow> string \<Rightarrow> string option" where
  "search_url_of L platform query =
     (let q = encodeURIComponent L query in
      if platform = ''amazon'' then map_option (\<lambda>e. ''https://www.amazon.com/s?k='' @ e) q
      else if platform = ''bestbuy'' then
        map_option (\<lambda>e. ''https://www.bestbuy.com/site/searchpage.jsp?st='' @ e @ ''&intl=nosplash'') q
      else if platform = ''ebay'' then
        map_option (\<lambda>e. ''https://www.ebay.com/sch/i.html?_nkw='' @ e) q
      else if platform = ''etsy'' then map_option (\<lambda>e. ''https://www.etsy.com/search?q='' @ e) q
      else if platform = ''homedepot'' then
        map_option (\<lambda>e. ''https://www.homedepot.com/search?q='' @ e) q
      else if platform = ''walmart'' then
        map_option (\<lambda>e. ''https://www.walmart.com/search?q='' @ e) q
      else if platform = ''zara'' then
        map_option (\<lambda>e. ''https://www.zara.com/us/en/search?q='' @ e) q
      else Some [])"

text \<open>
  An entry of the results of \<open>search_products\<close>: \<^verbatim>\<open>{data, platform, search_url}\<close>
  pushed at the end of the \<^verbatim>\<open>try\<close> block, or \<^verbatim>\<open>{error, platform, search_url: ""}\<close>
  pushed by the \<^verbatim>\<open>catch\<close>.
\<close>

record search_entry =
  se_data :: "SearchResult list option"
  se_error :: "string option"
  se_platform :: string
  se_search_url :: string

definition search_failed :: "string \<Rightarrow> string \<Rightarrow> search_entry" where
  "search_failed m platform =
     \<lparr>se_data = None, se_error = Some m, se_platform = platform, se_search_url = []\<rparr>"

text \<open>One round of the loop of \<open>search_products\<close>: the \<^verbatim>\<open>try\<close> block and its \<^verbatim>\<open>catch\<close>.\<close>

definition search_platform :: "'s lib \<Rightarrow> string \<Rightarrow> string \<Rightarrow> world \<Rightarrow> search_entry \<times> world" where
  "search_platform L query platform w =
     (case search_url_of L platform query of
        None \<Rightarrow> (search_failed ''URI malformed'' platform, w)
      | Some search_url \<Rightarrow>
          (case axios (RawContent search_url) w of
             (Rejected m, w1) \<Rightarrow> (search_failed m platform, w1)
           | (Resolved d, w1) \<Rightarrow>
               (case origin L search_url of
                  None \<Rightarrow> (search_failed ''Invalid URL'' platform, w1)
                | Some baseUrl \<Rightarrow>
                    (\<lparr>se_data = Some (parseSearchResults L (body_text d) platform baseUrl),
                      se_error = None, se_platform = platform, se_search_url = search_url\<rparr>,
                     w1))))"

fun search_loop :: "'s lib \<Rightarrow> string \<Rightarrow> string list \<Rightarrow> search_entry list \<Rightarrow> world \<Rightarrow> search_entry list \<times> world" where
  "search_loop L query [] results w = (results, w)"
| "search_loop L query (platform # platforms) results w =
     (case search_platform L query platform w of
        (entry, w1) \<Rightarrow> search_loop L query platforms (results @ [entry]) w1)"

record search_output =
  so_platforms_searched :: "string list"
  so_query :: string
  so_results :: "search_entry list"

definition search_products :: "'s lib \<Rightarrow> string list \<Rightarrow> string \<Rightarrow> world \<Rightarrow> search_output \<times> world" where
  "search_products L platforms query w =
     (case search_loop L query platforms [] w of
        (results, w1) \<Rightarrow>
          (\<lparr>so_platforms_searched = platforms, so_query = query, so_results = results\<rparr>, w1))"

text \<open>
  The batch tools \<open>compare_prices\<close> and \<open>get_price_update\<close> call the other tools as
  \<^verbatim>\<open>server.tools.get_product_details.execute\<close> and
  \<^verbatim>\<open>server.tools.search_products.execute\<close>, where \<^verbatim>\<open>server\<close> is the FastMCP
  instance. The repository gives that instance no property \<^verbatim>\<open>tools\<close> (the
  TypeScript source names it through the cast \<^verbatim>\<open>as { tools: ServerTools } & FastMCP\<close>),
  so its value is a parameter: \<open>None\<close> is \<^verbatim>\<open>undefined\<close>, the value on the instance
  the library creates; \<open>Some T\<close> is an object of the declared interface
  \<^verbatim>\<open>ServerTools\<close>, with \<open>st_get_product_details T\<close> the function
  \<^verbatim>\<open>get_product_details.execute\<close> and \<open>st_search_products T\<close> the property
  \<^verbatim>\<open>results\<close> of what \<^verbatim>\<open>search_products.execute\<close> resolves with (\<open>None\<close> when
  that value has no such property).
\<close>

record server_tools =
  st_get_product_details :: "string \<Rightarrow> world \<Rightarrow> (error + ProductData) \<times> world"
  st_search_products ::
    "string list \<Rightarrow> string \<Rightarrow> world \<Rightarrow> (error + ProductData list option) \<times> world"

text \<open>Reading a property of \<^verbatim>\<open>server.tools\<close> when it is \<^verbatim>\<open>undefined\<close>.\<close>

definition tools_undefined :: "string \<Rightarrow> error" where
  "tools_undefined name =
     TypeError (''Cannot read properties of undefined (reading '' @ [CHR 0x27] @ name @ [CHR 0x27] @ '')'')"

text \<open>\<^verbatim>\<open>await server.tools.get_product_details.execute({ url })\<close>\<close>

definition tools_get_product_details :: "server_tools option \<Rightarrow> string \<Rightarrow> world \<Rightarrow> (error + ProductData) \<times> world" where
  "tools_get_product_details tools url w =
     (case tools of
        None \<Rightarrow> (Inl (tools_undefined ''get_product_details''), w)
      | Some T \<Rightarrow> st_get_product_details T url w)"

text \<open>
  \<^verbatim>\<open>(await server.tools.search_products.execute({ platforms, query })).results\<close>
\<close>

definition tools_search_results :: "server_tools option \<Rightarrow> string list \<Rightarrow> string \<Rightarrow> world \<Rightarrow> (error + ProductData list option) \<times> world" where
  "tools_search_results tools platforms query w =
     (case tools of
        None \<Rightarrow> (Inl (tools_undefined ''search_products''), w)
      | Some T \<Rightarrow> st_search_products T platforms query w)"

text \<open>
  The tools as the host would hold them had it set \<^verbatim>\<open>server.tools\<close> to the functions
  registered with \<^verbatim>\<open>addTool\<close>: \<open>search_products\<close> resolves with a JSON text, which
  has no property \<^verbatim>\<open>results\<close>.
\<close>

definition registered_tools :: "'s lib \<Rightarrow> server_tools" where
  "registered_tools L =
     \<lparr>st_get_product_details = get_product_details L,
      st_search_products = (\<lambda>platforms query w.
         case search_products L platforms query w of (json_text, w1) \<Rightarrow> (Inr None, w1))\<rparr>"

text \<open>
  The loop of \<open>compare_prices\<close> over the URLs: the call of the tool inside the
  \<^verbatim>\<open>try\<close>, the push of its result, and the \<^verbatim>\<open>catch\<close>, which writes the message to
  the console and pushes nothing.
\<close>

fun compare_loop :: "server_tools option \<Rightarrow> string list \<Rightarrow> ProductData list \<Rightarrow> world \<Rightarrow> ProductData list \<times> world" where
  "compare_loop tools [] comparison_results w = (comparison_results, w)"
| "compare_loop tools (url # urls) comparison_results w =
     (case tools_get_product_details tools url w of
        (Inr product_details, w1) \<Rightarrow>
          compare_loop tools urls (comparison_results @ [product_details]) w1
      | (Inl e, w1) \<Rightarrow>
          compare_loop tools urls comparison_results
            (w1\<lparr>console := console w1 @ [message e]\<rparr>))"

text \<open>
  The output of \<open>compare_prices\<close>. \<open>cmp_results\<close> is \<open>None\<close> for
  \<^verbatim>\<open>undefined\<close>; \<open>cmp_query\<close> is \<^verbatim>\<open>query || null\<close>.
\<close>

record comparison =
  cmp_query :: "string option"
  cmp_results :: "ProductData list option"
  cmp_timestamp :: string
  cmp_type :: string

text \<open>
  \<^verbatim>\<open>execute\<close> of \<open>compare_prices\<close>. The search branch calls the tool outside any
  \<^verbatim>\<open>try\<close>: what the call throws, the tool throws.
\<close>

definition compare_prices :: "server_tools option \<Rightarrow> string \<Rightarrow> string list \<Rightarrow> string option \<Rightarrow> string list option \<Rightarrow> world \<Rightarrow> (error + comparison) \<times> world" where
  "compare_prices tools now platforms query urls w =
     (let out = (\<lambda>results.
            \<lparr>cmp_query = (case query of None \<Rightarrow> None | Some q \<Rightarrow> if q = [] then None else Some q),
             cmp_results = results, cmp_timestamp = now,
             cmp_type = (case urls of None \<Rightarrow> ''search_comparison''
                                    | Some us \<Rightarrow> ''url_comparison'')\<rparr>)
      in case urls of
           Some (u # us) \<Rightarrow>
             (case compare_loop tools (u # us) [] w of
                (comparison_results, w1) \<Rightarrow> (Inr (out (Some comparison_results)), w1))
         | _ \<Rightarrow>
             (case query of
                Some (c # cs) \<Rightarrow>
                  (case tools_search_results tools platforms (c # cs) w of
                     (Inl e, w1) \<Rightarrow> (Inl e, w1)
                   | (Inr results, w1) \<Rightarrow> (Inr (out results), w1))
              | _ \<Rightarrow> (Inl (Error ''Either query or urls must be provided''), w)))"

text \<open>
  An entry of the updates of \<open>get_price_update\<close>: \<^verbatim>\<open>{data, status: "updated", url}\<close>
  or, from the \<^verbatim>\<open>catch\<close>, \<^verbatim>\<open>{error, status: "error", url}\<close>.
\<close>

record update_entry =
  up_data :: "ProductData option"
  up_error :: "string option"
  up_status :: string
  up_url :: string

fun update_loop :: "server_tools option \<Rightarrow> string list \<Rightarrow> update_entry list \<Rightarrow> world \<Rightarrow> update_entry list \<times> world" where
  "update_loop tools [] updates w = (updates, w)"
| "update_loop tools (product_url # urls) updates w =
     (case tools_get_product_details tools product_url w of
        (Inr current_data, w1) \<Rightarrow>
          update_loop tools urls
            (updates @ [\<lparr>up_data = Some current_data, up_error = None,
                          up_status = ''updated'', up_url = product_url\<rparr>]) w1
      | (Inl e, w1) \<Rightarrow>
          update_loop tools urls
            (updates @ [\<lparr>up_data = None, up_error = Some (message e),
                          up_status = ''error'', up_url = product_url\<rparr>]) w1)"

record update_output =
  uo_timestamp :: string
  uo_updated_products :: nat
  uo_updates :: "update_entry list"

definition get_price_update :: "server_tools option \<Rightarrow> string \<Rightarrow> string list \<Rightarrow> world \<Rightarrow> update_output \<times> world" where
  "get_price_update tools now urls w =
     (case update_loop tools urls [] w of
        (updates, w1) \<Rightarrow>
          (\<lparr>uo_timestamp = now, uo_updated_products = length updates, uo_updates = updates\<rparr>,
           w1))"

section \<open>The product service\<close>

text \<open>
  The class \<^verbatim>\<open>ProductService\<close> (\<^verbatim>\<open>src/services/product-service.ts\<close>) over the store
  Prisma keeps.
\<close>

text \<open>
  The rows of the store, after the Prisma schema (the time stamps are left out), and
  the store as its three tables, each in the order its rows were created.
\<close>

record User =
  u_id :: string
  u_userId :: string

record Product =
  p_id :: string
  p_name :: string
  p_platform :: string
  p_target_price :: "int option"
  p_url :: string
  p_tracking_type :: string
  p_userId :: "string option"

record Price =
  price_id :: string
  price_amount :: int
  price_productId :: "string option"

record store =
  users :: "User list"
  products :: "Product list"
  prices :: "Price list"

text \<open>The \<^verbatim>\<open>ProductDetails\<close> interface; every field is optional.\<close>

record ProductDetails =
  det_currentPrice :: "int option"
  det_name :: "string option"
  det_platform :: "string option"

text \<open>The identifiers the database generates for the rows of one \<^verbatim>\<open>create\<close>.\<close>

record generated =
  new_product_id :: string
  new_price_id :: string

text \<open>\<^verbatim>\<open>prisma.user.findUnique({ where: { userId } })\<close>\<close>

definition findUnique_user :: "store \<Rightarrow> string \<Rightarrow> User option" where
  "findUnique_user st userId = List.find (\<lambda>u. u_userId u = userId) (users st)"

text \<open>
  \<^verbatim>\<open>trackProduct(userId, url, productDetails)\<close>: the user is looked up first, and a
  missing user throws before the \<^verbatim>\<open>create\<close>. The create writes the product row and,
  nested, its first price row.
\<close>

definition trackProduct :: "generated \<Rightarrow> 's lib \<Rightarrow> store \<Rightarrow> string \<Rightarrow> string \<Rightarrow> ProductDetails \<Rightarrow> (error + Product) \<times> store" where
  "trackProduct G L st userId url productDetails =
     (case findUnique_user st userId of
        None \<Rightarrow> (Inl (Error ''User not found''), st)
      | Some user \<Rightarrow>
          (let name = (case det_name productDetails of
                         None \<Rightarrow> ''New Product''
                       | Some n \<Rightarrow> if n = [] then ''New Product'' else n);
               platform = (case det_platform productDetails of
                             None \<Rightarrow> hostname L url
                           | Some p \<Rightarrow> if p = [] then hostname L url else Some p);
               amount = (case det_currentPrice productDetails of
                           None \<Rightarrow> 0
                         | Some a \<Rightarrow> a)
           in case platform of
                None \<Rightarrow> (Inl (TypeError ''Invalid URL''), st)
              | Some pf \<Rightarrow>
                  (let product = \<lparr>p_id = new_product_id G, p_name = name, p_platform = pf,
                                   p_target_price = None, p_url = url,
                                   p_tracking_type = ''price'', p_userId = Some (u_id user)\<rparr>;
                       price = \<lparr>price_id = new_price_id G, price_amount = amount,
                                 price_productId = Some (new_product_id G)\<rparr>
                   in (Inr product,
                       st\<lparr>products := products st @ [product],
                          prices := prices st @ [price]\<rparr>))))"

text \<open>
  \<^verbatim>\<open>untrackProduct(userId, productId)\<close>: the same lookup and throw, then
  \<^verbatim>\<open>prisma.product.delete({ where: { id: productId, userId: user.id } })\<close>, which
  throws when no row matches. The relation of a price to its product is optional, so
  the delete leaves the price rows and clears their \<^verbatim>\<open>productId\<close>.
\<close>

definition untrackProduct :: "store \<Rightarrow> string \<Rightarrow> string \<Rightarrow> (error + Product) \<times> store" where
  "untrackProduct st userId productId =
     (case findUnique_user st userId of
        None \<Rightarrow> (Inl (Error ''User not found''), st)
      | Some user \<Rightarrow>
          (case List.find (\<lambda>p. p_id p = productId \<and> p_userId p = Some (u_id user))
                  (products st) of
             None \<Rightarrow> (Inl (Error ''Record to delete does not exist.''), st)
           | Some p \<Rightarrow>
               (Inr p,
                st\<lparr>products := filter (\<lambda>q. p_id q \<noteq> productId) (products st),
                   prices := map (\<lambda>r. if price_productId r = Some productId
                                        then r\<lparr>price_productId := None\<rparr> else r)
                                 (prices st)\<rparr>)))"

section \<open>The notions the properties are stated with\<close>

text \<open>
  The Platform Detector as the specification words it: the fixed list of domain
  fragments with their tags, in the order the specification enumerates them.
\<close>

definition platform_fragments :: "(string \<times> string) list" where
  "platform_fragments =
     [(''amazon.'', ''amazon''), (''ebay.'', ''ebay''), (''walmart.'', ''walmart''),
      (''etsy.'', ''etsy''), (''bestbuy.'', ''bestbuy''), (''homedepot.'', ''homedepot''),
      (''zara.'', ''zara'')]"

text \<open>Poll requests and result-fetch requests among the requests sent.\<close>

fun is_poll :: "request \<Rightarrow> bool" where
  "is_poll (Progress s) = True"
| "is_poll r = False"

fun is_fetch :: "request \<Rightarrow> bool" where
  "is_fetch (Snapshot s) = True"
| "is_fetch r = False"

definition count_polls :: "request list \<Rightarrow> nat" where
  "count_polls rs = length (filter is_poll rs)"

definition polls_before_fetch :: "request list \<Rightarrow> nat" where
  "polls_before_fetch rs = count_polls (takeWhile (\<lambda>r. \<not> is_fetch r) rs)"

text \<open>
  What a search parser reads from one item element, per platform: the selector of the
  item elements, the name text, the price text that the parser tests (for Amazon the
  whole part followed by the fraction part, which is empty exactly when both are) and
  the \<^verbatim>\<open>href\<close> of the link.
\<close>

definition item_selector :: "string \<Rightarrow> string" where
  "item_selector platform =
     (if platform = ''amazon'' then ''.s-result-item[data-asin]''
      else if platform = ''bestbuy'' then ''.sku-item''
      else if platform = ''ebay'' then ''.s-item''
      else if platform = ''etsy'' then ''.v2-listing-card''
      else if platform = ''homedepot'' then ''.product-pod''
      else if platform = ''walmart'' then ''[data-item-id]''
      else ''.product-grid-product'')"

definition name_text :: "'s cheerio \<Rightarrow> string \<Rightarrow> 's \<Rightarrow> string" where
  "name_text C platform el =
     trim (text_of C (find_in C el
       (if platform = ''amazon'' then ''h2 span''
        else if platform = ''bestbuy'' then ''.sku-header''
        else if platform = ''ebay'' then ''.s-item__title''
        else if platform = ''etsy'' then ''.v2-listing-card__title''
        else if platform = ''homedepot'' then ''.product-pod--title''
        else if platform = ''walmart'' then ''[data-automation-id=\"product-title\"]''
        else ''.product-grid-product-info__name'')))"

definition price_text :: "'s cheerio \<Rightarrow> string \<Rightarrow> 's \<Rightarrow> string" where
  "price_text C platform el =
     (if platform = ''amazon'' then
        trim (text_of C (first_of C (find_in C el ''.a-price-whole''))) @
        trim (text_of C (first_of C (find_in C el ''.a-price-fraction'')))
      else if platform = ''bestbuy'' then
        replace (replace
          (text_of C (first_of C (find_in C el ''.priceView-customer-price span''))) ''$'' [])
          '','' []
      else if platform = ''ebay'' then
        replace (replace (trim (text_of C (find_in C el ''.s-item__price''))) ''$'' []) '','' []
      else if platform = ''etsy'' then
        replace (text_of C (first_of C (find_in C el ''.currency-value''))) '','' []
      else if platform = ''homedepot'' then
        replace (replace (text_of C (find_in C el ''.price__dollars'')) ''$'' []) '','' []
      else if platform = ''walmart'' then
        replace (replace
          (text_of C (find_in C el ''[data-automation-id=\"product-price\"]'')) ''$'' [])
          '','' []
      else
        replace (replace (text_of C (find_in C el ''.price-current__amount'')) ''$'' []) '','' [])"

text \<open>
  The text a search parser hands to \<^verbatim>\<open>parseFloat\<close>: the price text, for Amazon the
  whole part, a point and the fraction part.
\<close>

definition price_literal :: "'s cheerio \<Rightarrow> string \<Rightarrow> 's \<Rightarrow> string" where
  "price_literal C platform el =
     (if platform = ''amazon'' then
        trim (text_of C (first_of C (find_in C el ''.a-price-whole''))) @ ''.'' @
        trim (text_of C (first_of C (find_in C el ''.a-price-fraction'')))
      else price_text C platform el)"

definition link_href :: "'s cheerio \<Rightarrow> string \<Rightarrow> 's \<Rightarrow> string option" where
  "link_href C platform el =
     attr C (find_in C el
       (if platform = ''amazon'' then ''h2 a''
        else if platform = ''bestbuy'' then ''.sku-header a''
        else if platform = ''ebay'' then ''.s-item__link''
        else if platform = ''etsy'' then ''.listing-link''
        else if platform = ''homedepot'' then ''.product-pod--link''
        else ''a'')) ''href''"

section \<open>A document model for the fixtures\<close>

text \<open>
  The closed evaluations below need a loaded document to run the parsers on. This
  section gives one: a document tree and the part of cheerio's selection the parsers
  use on it (type, class, id and attribute selectors, the descendant combinator and
  selector lists). It stands for cheerio on the fixtures only; every general theorem
  is stated for an arbitrary library.
\<close>

datatype node = Element string "(string \<times> string) list" "node list" | TextNode string

fun node_text :: "node \<Rightarrow> string" where
  "node_text (TextNode t) = t"
| "node_text (Element tg ats cs) = concat (map node_text cs)"

fun children :: "node \<Rightarrow> node list" where
  "children (Element tg ats cs) = cs"
| "children (TextNode t) = []"

fun attributes :: "node \<Rightarrow> (string \<times> string) list" where
  "attributes (Element tg ats cs) = ats"
| "attributes (TextNode t) = []"

text \<open>
  The elements of a subtree in document order, each with its ancestors inside the
  subtree (the nearest first).
\<close>

fun walk :: "node list \<Rightarrow> node \<Rightarrow> (node list \<times> node) list" where
  "walk anc (TextNode t) = []"
| "walk anc (Element tg ats cs) =
     (anc, Element tg ats cs) # concat (map (walk (Element tg ats cs # anc)) cs)"

datatype simple = Tag string | Cls string | Ident string | HasAttr string | AttrEq string string

fun split_on :: "char \<Rightarrow> string \<Rightarrow> string list" where
  "split_on d [] = [[]]"
| "split_on d (c # s) =
     (if c = d then [] # split_on d s
      else (case split_on d s of [] \<Rightarrow> [[c]] | w # ws \<Rightarrow> (c # w) # ws))"

definition unquote :: "string \<Rightarrow> string" where
  "unquote v =
     (let q = (\<lambda>c. c = CHR 0x22 \<or> c = CHR 0x27);
          v1 = (case v of [] \<Rightarrow> [] | c # r \<Rightarrow> if q c then r else v)
      in case rev v1 of [] \<Rightarrow> [] | c # r \<Rightarrow> if q c then rev r else v1)"

text \<open>The simple selector read in mode \<open>m\<close> (the character that opened it) with text \<open>acc\<close>.\<close>

definition emit :: "char \<Rightarrow> string \<Rightarrow> simple list" where
  "emit m acc =
     (if m = CHR ''.'' then [Cls acc]
      else if m = CHR ''#'' then [Ident acc]
      else if m = CHR ''['' then
        (if CHR ''='' \<in> set acc
         then [AttrEq (takeWhile (\<lambda>c. c \<noteq> CHR ''='') acc)
                 (unquote (drop 1 (dropWhile (\<lambda>c. c \<noteq> CHR ''='') acc)))]
         else [HasAttr acc])
      else if acc = [] then [] else [Tag acc])"

fun scan :: "string \<Rightarrow> char \<Rightarrow> string \<Rightarrow> simple list" where
  "scan [] m acc = emit m acc"
| "scan (c # s) m acc =
     (if m = CHR ''['' then
        (if c = CHR '']'' then emit m acc @ scan s CHR ''t'' [] else scan s m (acc @ [c]))
      else if c = CHR ''.'' \<or> c = CHR ''#'' \<or> c = CHR ''[''
        then emit m acc @ scan s c []
      else scan s m (acc @ [c]))"

text \<open>
  A selector list as its alternatives, each the compound selectors of a descendant
  chain, the innermost first.
\<close>

definition parse_selector :: "string \<Rightarrow> simple list list list" where
  "parse_selector q =
     map (\<lambda>alt. rev (map (\<lambda>w. scan w CHR ''t'' []) (filter (\<lambda>w. w \<noteq> []) (split_on CHR '' '' alt))))
       (split_on CHR '','' q)"

fun matches_simple :: "node \<Rightarrow> simple \<Rightarrow> bool" where
  "matches_simple (TextNode t) s = False"
| "matches_simple (Element tg ats cs) (Tag n) = (tg = n)"
| "matches_simple (Element tg ats cs) (Cls c) =
     (case map_of ats ''class'' of None \<Rightarrow> False | Some v \<Rightarrow> c \<in> set (split_on CHR '' '' v))"
| "matches_simple (Element tg ats cs) (Ident i) = (map_of ats ''id'' = Some i)"
| "matches_simple (Element tg ats cs) (HasAttr a) = (map_of ats a \<noteq> None)"
| "matches_simple (Element tg ats cs) (AttrEq a v) = (map_of ats a = Some v)"

fun ancestors_match :: "node list \<Rightarrow> simple list list \<Rightarrow> bool" where
  "ancestors_match anc [] = True"
| "ancestors_match [] (c # cs) = False"
| "ancestors_match (a # anc) (c # cs) =
     ((list_all (matches_simple a) c \<and> ancestors_match anc cs) \<or> ancestors_match anc (c # cs))"

definition matches_chain :: "node list \<Rightarrow> node \<Rightarrow> simple list list \<Rightarrow> bool" where
  "matches_chain anc n chain =
     (case chain of
        [] \<Rightarrow> False
      | c # cs \<Rightarrow> list_all (matches_simple n) c \<and> ancestors_match anc cs)"

definition run_selector :: "(node list \<times> node) list \<Rightarrow> string \<Rightarrow> node list" where
  "run_selector cands q =
     map snd (filter (\<lambda>(anc, n). list_ex (matches_chain anc n) (parse_selector q)) cands)"

text \<open>
  The loaded document over a list of root nodes. A selection is the list of its
  elements; \<open>find_in\<close> searches below each element of the selection, the ancestors of a
  descendant chain being looked for below that element.
\<close>

definition dom_cheerio :: "node list \<Rightarrow> node list cheerio" where
  "dom_cheerio doc =
     \<lparr>select = (\<lambda>q. run_selector (concat (map (walk []) doc)) q),
      each = map (\<lambda>n. [n]),
      find_in = (\<lambda>sel q. run_selector (concat (map (\<lambda>n. concat (map (walk []) (children n))) sel)) q),
      first_of = take 1,
      text_of = (\<lambda>sel. concat (map node_text sel)),
      attr = (\<lambda>sel a. case sel of [] \<Rightarrow> None | n # ns \<Rightarrow> map_of (attributes n) a),
      hasClass = (\<lambda>sel c. list_ex (\<lambda>n. matches_simple n (Cls c)) sel)\<rparr>"

text \<open>The document cheerio builds around the content of a body.\<close>

definition page :: "node list \<Rightarrow> node list" where
  "page body = [Element ''html'' [] [Element ''head'' [] [], Element ''body'' [] body]]"

text \<open>
  Three search pages: an eBay item whose price element holds no number, a Walmart item
  with no link, and an eBay item with all three fields.
\<close>

definition ebay_no_price_html :: string where
  "ebay_no_price_html =
     ''<li class=\"s-item\"><a class=\"s-item__link\" href=\"https://www.ebay.com/itm/1\">'' @
     ''<span class=\"s-item__title\">Desk lamp</span></a>'' @
     ''<span class=\"s-item__price\">See price in cart</span></li>''"

definition ebay_no_price_dom :: "node list" where
  "ebay_no_price_dom =
     page [Element ''li'' [(''class'', ''s-item'')]
       [Element ''a'' [(''class'', ''s-item__link''), (''href'', ''https://www.ebay.com/itm/1'')]
          [Element ''span'' [(''class'', ''s-item__title'')] [TextNode ''Desk lamp'']],
        Element ''span'' [(''class'', ''s-item__price'')] [TextNode ''See price in cart'']]]"

definition walmart_no_link_html :: string where
  "walmart_no_link_html =
     ''<div data-item-id=\"1\"><span data-automation-id=\"product-title\">Desk lamp</span>'' @
     ''<span data-automation-id=\"product-price\">$5.00</span></div>''"

definition walmart_no_link_dom :: "node list" where
  "walmart_no_link_dom =
     page [Element ''div'' [(''data-item-id'', ''1'')]
       [Element ''span'' [(''data-automation-id'', ''product-title'')] [TextNode ''Desk lamp''],
        Element ''span'' [(''data-automation-id'', ''product-price'')] [TextNode ''$5.00'']]]"

definition ebay_item_html :: string where
  "ebay_item_html =
     ''<li class=\"s-item\"><a class=\"s-item__link\" href=\"/itm/2\">'' @
     ''<span class=\"s-item__title\"> Floor lamp </span></a>'' @
     ''<span class=\"s-item__price\">$1,299.00</span></li>''"

definition ebay_item_dom :: "node list" where
  "ebay_item_dom =
     page [Element ''li'' [(''class'', ''s-item'')]
       [Element ''a'' [(''class'', ''s-item__link''), (''href'', ''/itm/2'')]
          [Element ''span'' [(''class'', ''s-item__title'')] [TextNode '' Floor lamp '']],
        Element ''span'' [(''class'', ''s-item__price'')] [TextNode ''$1,299.00'']]]"

text \<open>\<^verbatim>\<open>cheerio.load\<close> on the fixtures: each page above with its document, written out by hand.\<close>

definition fixture_load :: "string \<Rightarrow> node list cheerio" where
  "fixture_load html =
     dom_cheerio
       (case map_of [(ebay_no_price_html, ebay_no_price_dom),
                     (walmart_no_link_html, walmart_no_link_dom),
                     (ebay_item_html, ebay_item_dom)] html of
          None \<Rightarrow> page []
        | Some d \<Rightarrow> d)"

text \<open>
  \<^verbatim>\<open>new URL(u)\<close> on the fixtures: an \<^verbatim>\<open>http\<close> or \<^verbatim>\<open>https\<close> URL with a
  lower-case host and no user information or port has its scheme and host as origin;
  a text with no scheme is not a URL.
\<close>

definition http_host :: "string \<Rightarrow> (string \<times> string) option" where
  "http_host u =
     (let scheme = (if startsWith u ''https://'' then ''https://''
                    else if startsWith u ''http://'' then ''http://'' else []);
          host = takeWhile (\<lambda>c. c \<notin> set ''/?#'') (drop (length scheme) u)
      in if scheme = [] \<or> host = [] then None else Some (scheme, host))"

text \<open>
  \<^verbatim>\<open>encodeURIComponent\<close> on code units below 128: the unreserved characters stay, every
  other one is written as a percent sign and two hexadecimal digits.
\<close>

definition percent_encode :: "string \<Rightarrow> string" where
  "percent_encode q =
     concat (map (\<lambda>c.
        if c \<in> set ''abcdefghijklmnopqrstuvwxyzABCDEFGHIJKLMNOPQRSTUVWXYZ0123456789-_.!~*()''
             \<or> c = CHR 0x27
        then [c]
        else [CHR ''%'', ''0123456789ABCDEF'' ! (of_char c div 16),
              ''0123456789ABCDEF'' ! (of_char c mod 16)]) q)"

definition fixture_lib :: "node list lib" where
  "fixture_lib =
     \<lparr>load = fixture_load,
      origin = (\<lambda>u. map_option (\<lambda>(scheme, host). scheme @ host) (http_host u)),
      hostname = (\<lambda>u. map_option snd (http_host u)),
      encodeURIComponent = (\<lambda>q. Some (percent_encode q))\<rparr>"

text \<open>The item the third page holds.\<close>

definition floor_lamp :: SearchResult where
  "floor_lamp =
     \<lparr>sr_currency = ''USD'', sr_image = None, sr_name = ''Floor lamp'', sr_platform = ''ebay'',
      sr_price = Lit ''1299.00'', sr_rating = None, sr_reviews = None,
      sr_url = ''https://www.ebay.com/itm/2''\<rparr>"

text \<open>
  Worlds for the runs below: nothing sent yet and the given responses to come; the data
  of a progress response and of a trigger response; a product URL of a platform with a
  dataset.
\<close>

definition world_of :: "response list \<Rightarrow> world" where
  "world_of rs = \<lparr>pending = rs, sent = [], console = []\<rparr>"

definition status_body :: "string \<Rightarrow> jsval" where
  "status_body s = JObj [(''status'', JStr s)]"

definition triggered :: "string \<Rightarrow> response" where
  "triggered sid = Resolved (JObj [(''snapshot_id'', JStr sid)])"

definition amazon_url :: string where
  "amazon_url = ''https://www.amazon.com/dp/B01''"

text \<open>A store with one user, who tracks one product with one price.\<close>

definition example_store :: store where
  "example_store =
     \<lparr>users = [\<lparr>u_id = ''u-1'', u_userId = ''alice''\<rparr>],
      products = [\<lparr>p_id = ''p-1'', p_name = ''Desk lamp'', p_platform = ''amazon'',
                   p_target_price = None, p_url = ''https://www.amazon.com/dp/B01'',
                   p_tracking_type = ''price'', p_userId = Some ''u-1''\<rparr>],
      prices = [\<lparr>price_id = ''r-1'', price_amount = 1999, price_productId = Some ''p-1''\<rparr>]\<rparr>"

section \<open>Properties\<close>

subsection \<open>Strings and the platform detector\<close>

lemma startsWith_prefix: "startsWith s p \<longleftrightarrow> prefix p s"
  by (induction s p rule: startsWith.induct) auto

lemma includes_str_sublist: "includes_str s p \<longleftrightarrow> sublist p s"
  by (induction s) (auto simp: startsWith_prefix sublist_Cons_right)

text \<open>
  C5. \<open>detect_platform\<close> is a total function of the URL string: it returns the tag of
  the first fragment of the fixed list amazon., ebay., walmart., etsy., bestbuy.,
  homedepot., zara. that occurs in the URL as a substring, and "unknown" when none occurs.
\<close>

theorem detect_platform_first_match:
  "detect_platform url =
     (case List.find (\<lambda>(frag, tag). sublist frag url) platform_fragments of
        None \<Rightarrow> ''unknown''
      | Some (frag, tag) \<Rightarrow> tag)"
  by (simp add: detect_platform_def platform_fragments_def includes_str_sublist)

text \<open>The example of the specification.\<close>

lemma detect_platform_ebay: "detect_platform ''https://www.ebay.com/itm/123'' = ''ebay''"
  by (simp add: detect_platform_def)

lemma detect_platform_cases:
  "detect_platform url \<in>
     {''amazon'', ''ebay'', ''walmart'', ''etsy'', ''bestbuy'', ''homedepot'', ''zara'', ''unknown''}"
  by (simp add: detect_platform_def)

text \<open>Only the platform "unknown" has no dataset identifier.\<close>

lemma no_dataset_unknown:
  "get_dataset_id (detect_platform url) = None \<longleftrightarrow> detect_platform url = ''unknown''"
  using detect_platform_cases [of url]
  by (auto simp: get_dataset_id_def dataset_map_def)

lemma amazon_url_platform: "detect_platform amazon_url = ''amazon''"
  by (simp add: amazon_url_def detect_platform_def)

lemma amazon_url_dataset:
  "get_dataset_id (detect_platform amazon_url) = Some ''gd_l7q7dkf244hwjntr0''"
  by (simp add: amazon_url_platform get_dataset_id_def dataset_map_def)

subsection \<open>The dataset job poller\<close>

declare poll_results.simps [simp del]

lemma axios_next:
  "pending w = r # rest \<Longrightarrow> axios req w = (r, w\<lparr>pending := rest, sent := sent w @ [req]\<rparr>)"
  by (simp add: axios_def)

lemma axios_sent: "sent (snd (axios req w)) = sent w @ [req]"
  by (simp add: axios_def split: list.split)

text \<open>One round of the loop on a "running" status, and the round that ends it.\<close>

lemma poll_running:
  assumes "i < max_attempts" "pending w = Resolved d # rest"
    and "get_prop d ''status'' = Inr (JStr ''running'')"
  shows "poll_results platform url sid i w =
         poll_results platform url sid (Suc i)
           (w\<lparr>pending := rest, sent := sent w @ [Progress sid]\<rparr>)"
  using assms by (subst poll_results.simps) (simp add: axios_next)

lemma poll_terminal:
  assumes "i < max_attempts" "pending w = Resolved d # Resolved r # rest"
    and "get_prop d ''status'' = Inr st" "st \<noteq> JStr ''running''" "st \<noteq> JStr ''failed''"
  shows "poll_results platform url sid i w =
         (Inr \<lparr>pd_data = Structured r, pd_method = ''structured_dataset'',
               pd_platform = platform, pd_url = url\<rparr>,
          w\<lparr>pending := rest, sent := sent w @ [Progress sid, Snapshot sid]\<rparr>)"
  using assms by (subst poll_results.simps) (simp add: axios_next)

text \<open>
  When every remaining round finds "running", the loop sends one poll per round and
  leaves by its condition.
\<close>

lemma poll_all_running:
  assumes "length ds + i = max_attempts" "pending w = map Resolved ds @ rest"
    and "\<forall>d\<in>set ds. get_prop d ''status'' = Inr (JStr ''running'')"
  shows "poll_results platform url sid i w =
         (Inl (Error ''Timeout waiting for dataset results''),
          w\<lparr>pending := rest, sent := sent w @ replicate (length ds) (Progress sid)\<rparr>)"
  using assms
proof (induction ds arbitrary: i w)
  case Nil
  then show ?case by (subst poll_results.simps) simp
next
  case (Cons d ds)
  have lt: "i < max_attempts" using Cons.prems(1) by simp
  let ?w1 = "w\<lparr>pending := map Resolved ds @ rest, sent := sent w @ [Progress sid]\<rparr>"
  have step: "poll_results platform url sid i w = poll_results platform url sid (Suc i) ?w1"
    using Cons.prems by (intro poll_running [OF lt, where d = d]) simp_all
  have "poll_results platform url sid (Suc i) ?w1 =
        (Inl (Error ''Timeout waiting for dataset results''),
         ?w1\<lparr>pending := rest, sent := sent ?w1 @ replicate (length ds) (Progress sid)\<rparr>)"
    using Cons.prems by (intro Cons.IH) simp_all
  with step show ?case by (simp add: replicate_app_Cons_same)
qed

text \<open>From round \<open>i\<close> on the loop sends at most \<open>max_attempts - i\<close> polls.\<close>

lemma poll_count:
  "count_polls (sent (snd (poll_results platform url sid i w)))
     \<le> count_polls (sent w) + (max_attempts - i)"
proof (induction platform url sid i w rule: poll_results.induct)
  case (1 platform url sid i w)
  show ?case
  proof (cases "i < max_attempts")
    case False
    then show ?thesis by (subst poll_results.simps) simp
  next
    case True
    obtain r w1 where ax: "axios (Progress sid) w = (r, w1)"
      by (cases "axios (Progress sid) w")
    have s1: "sent w1 = sent w @ [Progress sid]"
      using axios_sent [of "Progress sid" w] ax by simp
    have c1: "count_polls (sent w1) = Suc (count_polls (sent w))"
      by (simp add: s1 count_polls_def)
    show ?thesis
    proof (cases r)
      case (Rejected m)
      then show ?thesis using True ax c1 by (subst poll_results.simps) simp
    next
      case (Resolved d)
      show ?thesis
      proof (cases "get_prop d ''status''")
        case (Inl e)
        then show ?thesis using True ax c1 Resolved by (subst poll_results.simps) simp
      next
        case (Inr st)
        consider "st = JStr ''running''" | "st \<noteq> JStr ''running''" "st = JStr ''failed''"
          | "st \<noteq> JStr ''running''" "st \<noteq> JStr ''failed''" by blast
        then show ?thesis
        proof cases
          case 1
          have "count_polls (sent (snd (poll_results platform url sid (Suc i) w1)))
                \<le> count_polls (sent w1) + (max_attempts - Suc i)"
            using "1.IH" [OF True ax [symmetric] Resolved Inr 1] .
          then show ?thesis using True ax c1 Resolved Inr 1
            by (subst poll_results.simps) simp
        next
          case 2
          then show ?thesis using True ax c1 Resolved Inr
            by (subst poll_results.simps) simp
        next
          case 3
          obtain r2 w2 where ax2: "axios (Snapshot sid) w1 = (r2, w2)"
            by (cases "axios (Snapshot sid) w1")
          have "sent w2 = sent w1 @ [Snapshot sid]"
            using axios_sent [of "Snapshot sid" w1] ax2 by simp
          then have c2: "count_polls (sent w2) = count_polls (sent w1)"
            by (simp add: count_polls_def)
          show ?thesis using True ax c1 Resolved Inr 3 ax2 c2
            by (subst poll_results.simps) (auto split: response.split)
        qed
      qed
    qed
  qed
qed

lemma get_product_details_count:
  "count_polls (sent (snd (get_product_details L url w)))
     \<le> count_polls (sent w) + max_attempts"
proof (cases "get_dataset_id (detect_platform url)")
  case None
  obtain r w1 where ax: "axios (RawContent url) w = (r, w1)"
    by (cases "axios (RawContent url) w")
  have "sent w1 = sent w @ [RawContent url]"
    using axios_sent [of "RawContent url" w] ax by simp
  then have "count_polls (sent w1) = count_polls (sent w)" by (simp add: count_polls_def)
  then show ?thesis using None ax
    by (auto simp: get_product_details_def Let_def
             split: response.split option.split sum.split)
next
  case (Some did)
  obtain r w1 where ax: "axios (Trigger url did) w = (r, w1)"
    by (cases "axios (Trigger url did) w")
  have "sent w1 = sent w @ [Trigger url did]"
    using axios_sent [of "Trigger url did" w] ax by simp
  then have c: "count_polls (sent w1) = count_polls (sent w)" by (simp add: count_polls_def)
  show ?thesis
  proof (cases r)
    case (Rejected m)
    then show ?thesis using Some ax c by (simp add: get_product_details_def)
  next
    case (Resolved d)
    show ?thesis
      using Some ax c Resolved
        poll_count [of "detect_platform url" url "opt_prop d ''snapshot_id''" 0 w1]
      by (simp add: get_product_details_def)
  qed
qed

text \<open>
  C6. When the response to the trigger request carries no snapshot identifier (its
  data has no truthy \<^verbatim>\<open>snapshot_id\<close>), the tool fails with the error "Failed to
  trigger dataset collection", and the trigger request is the only request it has
  sent: no poll request and no result-fetch request.
\<close>

theorem trigger_without_snapshot_fails:
  assumes "get_dataset_id (detect_platform url) = Some did"
    and "pending w = Resolved d # rest"
    and "\<not> truthy (opt_prop d ''snapshot_id'')"
  shows "get_product_details L url w =
         (Inl (Error ''Failed to trigger dataset collection''),
          w\<lparr>pending := rest, sent := sent w @ [Trigger url did]\<rparr>)"
  using assms by (simp add: get_product_details_def axios_next)

text \<open>
  The theorem at an Amazon URL whose trigger response is an error object without a
  snapshot identifier.
\<close>

theorem trigger_without_snapshot_fails_witness:
  "get_product_details fixture_lib amazon_url
      (world_of [Resolved (JObj [(''error'', JStr ''bad input'')])]) =
     (Inl (Error ''Failed to trigger dataset collection''),
      \<lparr>pending = [], sent = [Trigger amazon_url ''gd_l7q7dkf244hwjntr0''], console = []\<rparr>)"
proof -
  have p: "pending (world_of [Resolved (JObj [(''error'', JStr ''bad input'')])]) =
           Resolved (JObj [(''error'', JStr ''bad input'')]) # []"
    by (simp add: world_of_def)
  have n: "\<not> truthy (opt_prop (JObj [(''error'', JStr ''bad input'')]) ''snapshot_id'')"
    by simp
  show ?thesis
    using trigger_without_snapshot_fails [OF amazon_url_dataset p n, of fixture_lib]
    by (simp add: world_of_def)
qed

text \<open>
  C2, as the code has it. Driven by the status sequence "running", "running", "ready",
  the poller sends exactly three poll requests before the result-fetch request: every
  status of the sequence is the answer to one poll, and the snapshot is fetched right
  after the poll that is answered "ready". The tool returns the envelope of the
  fetched payload.
\<close>

theorem three_polls_before_fetch:
  assumes did: "get_dataset_id (detect_platform url) = Some did"
    and pend: "pending w =
      Resolved t # Resolved d1 # Resolved d2 # Resolved d3 # Resolved r # rest"
    and sid: "truthy (opt_prop t ''snapshot_id'')"
    and d1: "get_prop d1 ''status'' = Inr (JStr ''running'')"
    and d2: "get_prop d2 ''status'' = Inr (JStr ''running'')"
    and d3: "get_prop d3 ''status'' = Inr (JStr ''ready'')"
  shows "get_product_details L url w =
         (Inr \<lparr>pd_data = Structured r, pd_method = ''structured_dataset'',
               pd_platform = detect_platform url, pd_url = url\<rparr>,
          w\<lparr>pending := rest,
            sent := sent w @ [Trigger url did,
                              Progress (opt_prop t ''snapshot_id''),
                              Progress (opt_prop t ''snapshot_id''),
                              Progress (opt_prop t ''snapshot_id''),
                              Snapshot (opt_prop t ''snapshot_id'')]\<rparr>)"
proof -
  let ?sid = "opt_prop t ''snapshot_id''"
  let ?p = "detect_platform url"
  let ?w1 = "w\<lparr>pending := Resolved d1 # Resolved d2 # Resolved d3 # Resolved r # rest,
               sent := sent w @ [Trigger url did]\<rparr>"
  let ?w2 = "?w1\<lparr>pending := Resolved d2 # Resolved d3 # Resolved r # rest,
               sent := sent ?w1 @ [Progress ?sid]\<rparr>"
  let ?w3 = "?w2\<lparr>pending := Resolved d3 # Resolved r # rest,
               sent := sent ?w2 @ [Progress ?sid]\<rparr>"
  have start: "get_product_details L url w = poll_results ?p url ?sid 0 ?w1"
    using did pend sid by (simp add: get_product_details_def axios_next)
  have s1: "poll_results ?p url ?sid 0 ?w1 = poll_results ?p url ?sid (Suc 0) ?w2"
    by (rule poll_running [where d = d1]) (simp_all add: max_attempts_def d1)
  have s2: "poll_results ?p url ?sid (Suc 0) ?w2 = poll_results ?p url ?sid (Suc (Suc 0)) ?w3"
    by (rule poll_running [where d = d2]) (simp_all add: max_attempts_def d2)
  have s3: "poll_results ?p url ?sid (Suc (Suc 0)) ?w3 =
            (Inr \<lparr>pd_data = Structured r, pd_method = ''structured_dataset'',
                  pd_platform = ?p, pd_url = url\<rparr>,
             ?w3\<lparr>pending := rest, sent := sent ?w3 @ [Progress ?sid, Snapshot ?sid]\<rparr>)"
    by (rule poll_terminal [where d = d3 and st = "JStr ''ready''"])
       (simp_all add: max_attempts_def d3)
  show ?thesis unfolding start s1 s2 s3 by simp
qed

text \<open>The theorem at an Amazon URL, with the snapshot "s1" and a one-row payload.\<close>

theorem three_polls_before_fetch_witness:
  "get_product_details fixture_lib amazon_url
      (world_of [triggered ''s1'', Resolved (status_body ''running''),
                 Resolved (status_body ''running''), Resolved (status_body ''ready''),
                 Resolved (JArr [JStr ''row''])]) =
     (Inr \<lparr>pd_data = Structured (JArr [JStr ''row'']), pd_method = ''structured_dataset'',
           pd_platform = ''amazon'', pd_url = amazon_url\<rparr>,
      \<lparr>pending = [],
        sent = [Trigger amazon_url ''gd_l7q7dkf244hwjntr0'', Progress (JStr ''s1''),
                Progress (JStr ''s1''), Progress (JStr ''s1''), Snapshot (JStr ''s1'')],
        console = []\<rparr>)"
proof -
  let ?t = "JObj [(''snapshot_id'', JStr ''s1'')]"
  have p: "pending (world_of [triggered ''s1'', Resolved (status_body ''running''),
                 Resolved (status_body ''running''), Resolved (status_body ''ready''),
                 Resolved (JArr [JStr ''row''])]) =
           Resolved ?t # Resolved (status_body ''running'') #
           Resolved (status_body ''running'') # Resolved (status_body ''ready'') #
           Resolved (JArr [JStr ''row'']) # []"
    by (simp add: world_of_def triggered_def)
  have t: "truthy (opt_prop ?t ''snapshot_id'')" by simp
  have r: "get_prop (status_body ''running'') ''status'' = Inr (JStr ''running'')"
    by (simp add: get_prop_def status_body_def)
  have d: "get_prop (status_body ''ready'') ''status'' = Inr (JStr ''ready'')"
    by (simp add: get_prop_def status_body_def)
  show ?thesis
    using three_polls_before_fetch [OF amazon_url_dataset p t r r d, of fixture_lib]
    by (simp add: world_of_def amazon_url_platform)
qed

text \<open>
  C2 as stated fails: on the status sequence "running", "running", "ready" the number
  of poll requests sent before the result-fetch request is three, not two.
\<close>

theorem two_polls_counterexample:
  "polls_before_fetch (sent (snd (get_product_details fixture_lib amazon_url
      (world_of [triggered ''s1'', Resolved (status_body ''running''),
                 Resolved (status_body ''running''), Resolved (status_body ''ready''),
                 Resolved (JArr [])])))) = 3 \<and>
   \<not> polls_before_fetch (sent (snd (get_product_details fixture_lib amazon_url
      (world_of [triggered ''s1'', Resolved (status_body ''running''),
                 Resolved (status_body ''running''), Resolved (status_body ''ready''),
                 Resolved (JArr [])])))) = 2"
  by code_simp

text \<open>
  C7. The polling loop is a total function (its termination is proved with the
  measure \<open>max_attempts - i\<close>), and for every URL and every behaviour of the provider
  the tool sends at most 30 poll requests. When the trigger succeeds and 30 polls in a
  row are answered "running", the tool fails with the timeout error after exactly
  those 30 polls: no further poll and no result-fetch request is sent, and the next
  response of the provider is left unread.
\<close>

theorem poller_bounded:
  "count_polls (sent (snd (get_product_details L url w))) \<le> count_polls (sent w) + 30 \<and>
   (get_dataset_id (detect_platform url) = Some did \<longrightarrow>
    pending w = Resolved t # map Resolved ds @ rest \<longrightarrow>
    truthy (opt_prop t ''snapshot_id'') \<longrightarrow>
    length ds = 30 \<longrightarrow>
    (\<forall>d\<in>set ds. get_prop d ''status'' = Inr (JStr ''running'')) \<longrightarrow>
    get_product_details L url w =
      (Inl (Error ''Timeout waiting for dataset results''),
       w\<lparr>pending := rest,
         sent := sent w @ Trigger url did #
                 replicate 30 (Progress (opt_prop t ''snapshot_id''))\<rparr>))"
proof (intro conjI impI)
  show "count_polls (sent (snd (get_product_details L url w))) \<le> count_polls (sent w) + 30"
    using get_product_details_count [of L url w] by (simp add: max_attempts_def)
next
  assume did: "get_dataset_id (detect_platform url) = Some did"
    and pend: "pending w = Resolved t # map Resolved ds @ rest"
    and sid: "truthy (opt_prop t ''snapshot_id'')"
    and len: "length ds = 30"
    and run: "\<forall>d\<in>set ds. get_prop d ''status'' = Inr (JStr ''running'')"
  let ?sid = "opt_prop t ''snapshot_id''"
  let ?w1 = "w\<lparr>pending := map Resolved ds @ rest, sent := sent w @ [Trigger url did]\<rparr>"
  have start: "get_product_details L url w = poll_results (detect_platform url) url ?sid 0 ?w1"
    using did pend sid by (simp add: get_product_details_def axios_next)
  have "poll_results (detect_platform url) url ?sid 0 ?w1 =
        (Inl (Error ''Timeout waiting for dataset results''),
         ?w1\<lparr>pending := rest, sent := sent ?w1 @ replicate (length ds) (Progress ?sid)\<rparr>)"
    using len run by (intro poll_all_running) (simp_all add: max_attempts_def)
  with start len show "get_product_details L url w =
      (Inl (Error ''Timeout waiting for dataset results''),
       w\<lparr>pending := rest,
         sent := sent w @ Trigger url did # replicate 30 (Progress ?sid)\<rparr>)"
    by simp
qed

text \<open>
  The theorem at an Amazon URL with 30 "running" answers followed by a "ready" one:
  the timeout, 30 polls, and the "ready" answer never asked for.
\<close>

theorem poller_bounded_witness:
  "get_product_details fixture_lib amazon_url
      (world_of (triggered ''s1'' # map Resolved (replicate 30 (status_body ''running'')) @
                 [Resolved (status_body ''ready'')])) =
     (Inl (Error ''Timeout waiting for dataset results''),
      \<lparr>pending = [Resolved (status_body ''ready'')],
        sent = Trigger amazon_url ''gd_l7q7dkf244hwjntr0'' #
               replicate 30 (Progress (JStr ''s1'')),
        console = []\<rparr>)"
proof -
  let ?t = "JObj [(''snapshot_id'', JStr ''s1'')]"
  let ?ds = "replicate 30 (status_body ''running'')"
  let ?w = "world_of (triggered ''s1'' # map Resolved ?ds @ [Resolved (status_body ''ready'')])"
  have p: "pending ?w = Resolved ?t # map Resolved ?ds @ [Resolved (status_body ''ready'')]"
    by (simp add: world_of_def triggered_def)
  have t: "truthy (opt_prop ?t ''snapshot_id'')" by simp
  have l: "length ?ds = 30" by simp
  have r: "\<forall>d\<in>set ?ds. get_prop d ''status'' = Inr (JStr ''running'')"
    by (simp add: get_prop_def status_body_def)
  have "get_product_details fixture_lib amazon_url ?w =
      (Inl (Error ''Timeout waiting for dataset results''),
       ?w\<lparr>pending := [Resolved (status_body ''ready'')],
         sent := sent ?w @ Trigger amazon_url ''gd_l7q7dkf244hwjntr0'' #
                 replicate 30 (Progress (opt_prop ?t ''snapshot_id''))\<rparr>)"
    using poller_bounded [of fixture_lib amazon_url ?w "''gd_l7q7dkf244hwjntr0''" ?t ?ds
        "[Resolved (status_body ''ready'')]"] amazon_url_dataset p t l r
    by blast
  then show ?thesis by (simp add: world_of_def)
qed

subsection \<open>The detail-fetch pipeline\<close>

text \<open>The detail parser on the platform "unknown": it never returns a record.\<close>

lemma parse_unknown:
  "parseProductDetails L html ''unknown'' b =
     (case origin L b of
        None \<Rightarrow> Inl (TypeError ''Invalid URL'')
      | Some baseUrl \<Rightarrow> Inl (Error ''Unsupported platform: unknown''))"
  by (simp add: parseProductDetails_def Let_def split: option.split)

text \<open>
  Without a dataset identifier the tool never returns an envelope: the only platform
  that reaches the scraping branch is "unknown", and the detail parser rejects it.
\<close>

lemma scraping_branch_throws:
  assumes "get_dataset_id (detect_platform url) = None"
  shows "\<exists>e. fst (get_product_details L url w) = Inl e"
proof -
  have u: "detect_platform url = ''unknown''" using assms by (simp add: no_dataset_unknown)
  show ?thesis
    using assms u
    by (auto simp: get_product_details_def Let_def parse_unknown
             split: prod.split response.split option.split)
qed

lemma poll_envelope:
  "poll_results platform url sid i w = (Inr env, w') \<Longrightarrow>
   pd_method env = ''structured_dataset'' \<and> pd_platform env = platform \<and> pd_url env = url"
proof (induction platform url sid i w rule: poll_results.induct)
  case (1 platform url sid i w)
  show ?case
  proof (cases "i < max_attempts")
    case False
    with "1.prems" show ?thesis by (subst (asm) poll_results.simps) simp
  next
    case True
    obtain r w1 where ax: "axios (Progress sid) w = (r, w1)"
      by (cases "axios (Progress sid) w")
    show ?thesis
    proof (cases r)
      case (Rejected m)
      with "1.prems" True ax show ?thesis by (subst (asm) poll_results.simps) simp
    next
      case (Resolved d)
      show ?thesis
      proof (cases "get_prop d ''status''")
        case (Inl e)
        with "1.prems" True ax Resolved show ?thesis
          by (subst (asm) poll_results.simps) simp
      next
        case (Inr st)
        show ?thesis
        proof (cases "st = JStr ''running''")
          case running: True
          have "poll_results platform url sid (Suc i) w1 = (Inr env, w')"
            using "1.prems" True ax Resolved Inr running
            by (subst (asm) poll_results.simps) simp
          then show ?thesis
            by (rule "1.IH" [OF True ax [symmetric] Resolved Inr running])
        next
          case False
          with "1.prems" True ax Resolved Inr show ?thesis
            by (subst (asm) poll_results.simps)
               (auto split: if_splits prod.splits response.splits)
        qed
      qed
    qed
  qed
qed

text \<open>
  Every envelope the tool returns comes from the dataset protocol: its method is
  "structured_dataset", its platform is the detected one and has a dataset identifier.
\<close>

lemma returned_envelope_structured:
  assumes "get_product_details L url w = (Inr env, w')"
  shows "pd_method env = ''structured_dataset'' \<and> pd_platform env = detect_platform url \<and>
         pd_url env = url \<and> get_dataset_id (detect_platform url) \<noteq> None"
proof (cases "get_dataset_id (detect_platform url)")
  case None
  from scraping_branch_throws [OF None, of L w] assms show ?thesis by simp
next
  case (Some did)
  obtain r w1 where ax: "axios (Trigger url did) w = (r, w1)"
    by (cases "axios (Trigger url did) w")
  from assms Some ax obtain d where
    "poll_results (detect_platform url) url (opt_prop d ''snapshot_id'') 0 w1 = (Inr env, w')"
    by (auto simp: get_product_details_def split: response.splits if_splits)
  from poll_envelope [OF this] Some show ?thesis by simp
qed

text \<open>
  C4 at a URL of no known platform. The tool detects "unknown", finds no dataset
  identifier, sends the single raw-content request, runs the detail parser on the
  body, and the parser throws "Unsupported platform: unknown": no envelope with the
  method "scraping" comes back.
\<close>

theorem scraping_fallback_throws:
  "get_product_details fixture_lib ''https://example.com/p/1''
      (world_of [Resolved (JStr ''<h1>Desk lamp</h1>'')]) =
     (Inl (Error ''Unsupported platform: unknown''),
      \<lparr>pending = [], sent = [RawContent ''https://example.com/p/1''], console = []\<rparr>)"
  by code_simp

subsection \<open>The field extractor\<close>

text \<open>
  C8, as the code has it. For a platform tag with no extraction rule, the detail parser
  throws "Unsupported platform: ..." whenever its URL argument parses as a URL; it
  reads the origin of that argument before the dispatch, so an argument that is not a
  URL makes it throw the \<^verbatim>\<open>TypeError\<close> of the URL constructor instead. The search
  parser returns the empty sequence for such a tag.
\<close>

theorem unsupported_platform_asymmetry:
  assumes "platform \<notin>
    {''amazon'', ''bestbuy'', ''ebay'', ''etsy'', ''homedepot'', ''walmart'', ''zara''}"
  shows "parseProductDetails L html platform url =
           (case origin L url of
              None \<Rightarrow> Inl (TypeError ''Invalid URL'')
            | Some baseUrl \<Rightarrow> Inl (Error (''Unsupported platform: '' @ platform))) \<and>
         parseSearchResults L html platform baseUrl = []"
  using assms
  by (simp add: parseProductDetails_def parseSearchResults_def Let_def split: option.split)

text \<open>The theorem at the tag "unknown" and the origin of an \<^verbatim>\<open>https\<close> URL.\<close>

theorem unsupported_platform_witness:
  "parseProductDetails fixture_lib ''<h1>Desk lamp</h1>'' ''unknown'' ''https://example.com'' =
     Inl (Error ''Unsupported platform: unknown'') \<and>
   parseSearchResults fixture_lib ''<h1>Desk lamp</h1>'' ''unknown'' ''https://example.com'' = []"
proof -
  have h: "''unknown'' \<notin>
      {''amazon'', ''bestbuy'', ''ebay'', ''etsy'', ''homedepot'', ''walmart'', ''zara''}"
    by simp
  have o: "origin fixture_lib ''https://example.com'' = Some ''https://example.com''"
    by code_simp
  show ?thesis
    using unsupported_platform_asymmetry [OF h, of fixture_lib "''<h1>Desk lamp</h1>''"
        "''https://example.com''" "''https://example.com''"] o
    by simp
qed

text \<open>
  C8 as stated fails: with the tag "unknown" and the URL argument "null" (the origin
  the server computes for a URL of a scheme without origins, such as a \<^verbatim>\<open>file:\<close>
  URL), the detail parser throws the \<^verbatim>\<open>TypeError\<close> "Invalid URL", not the
  unsupported-platform error.
\<close>

theorem unsupported_platform_counterexample:
  "parseProductDetails fixture_lib ''<h1>Desk lamp</h1>'' ''unknown'' ''null'' =
     Inl (TypeError ''Invalid URL'') \<and>
   parseProductDetails fixture_lib ''<h1>Desk lamp</h1>'' ''unknown'' ''null'' \<noteq>
     Inl (Error ''Unsupported platform: unknown'')"
  by code_simp

subsection \<open>Search extraction\<close>

lemma in_map_filter: "y \<in> set (List.map_filter f xs) \<longleftrightarrow> (\<exists>x\<in>set xs. f x = Some y)"
  by (induction xs) (auto simp: List.map_filter_simps split: option.splits)

lemma resolve_href_nonempty:
  "resolve_href baseUrl href \<noteq> [] \<Longrightarrow>
   \<exists>h. href = Some h \<and> h \<noteq> [] \<and>
       resolve_href baseUrl href = (if startsWith h ''http'' then h else baseUrl @ h)"
  by (auto simp: resolve_href_def split: option.splits if_splits)

text \<open>
  What each parser guarantees of an item it pushes. The five parsers that build the URL
  with the test of the link come first, then the two that concatenate.
\<close>

lemma parseAmazonSearch_items:
  assumes "it \<in> set (parseAmazonSearch C baseUrl)"
  shows "\<exists>el\<in>set (each C (select C (item_selector ''amazon''))).
           sr_platform it = ''amazon'' \<and> sr_name it = name_text C ''amazon'' el \<and>
           sr_name it \<noteq> [] \<and> price_text C ''amazon'' el \<noteq> [] \<and>
           sr_price it = parseFloat (price_literal C ''amazon'' el) \<and>
           (\<exists>h. link_href C ''amazon'' el = Some h \<and> h \<noteq> [] \<and>
                sr_url it = (if startsWith h ''http'' then h else baseUrl @ h))"
proof -
  from assms obtain el where el: "el \<in> set (each C (select C (item_selector ''amazon'')))"
    and nm: "name_text C ''amazon'' el \<noteq> []"
    and pr: "price_text C ''amazon'' el \<noteq> []"
    and ur: "resolve_href baseUrl (link_href C ''amazon'' el) \<noteq> []"
    and it: "sr_platform it = ''amazon''" "sr_name it = name_text C ''amazon'' el"
            "sr_price it = parseFloat (price_literal C ''amazon'' el)"
            "sr_url it = resolve_href baseUrl (link_href C ''amazon'' el)"
    unfolding parseAmazonSearch_def in_map_filter Let_def
    by (auto simp: item_selector_def name_text_def price_text_def price_literal_def
             link_href_def split: if_splits)
  from resolve_href_nonempty [OF ur] it nm pr el show ?thesis
    by (auto intro!: bexI [of _ el])
qed

lemma parseBestBuySearch_items:
  assumes "it \<in> set (parseBestBuySearch C baseUrl)"
  shows "\<exists>el\<in>set (each C (select C (item_selector ''bestbuy''))).
           sr_platform it = ''bestbuy'' \<and> sr_name it = name_text C ''bestbuy'' el \<and>
           sr_name it \<noteq> [] \<and> price_text C ''bestbuy'' el \<noteq> [] \<and>
           sr_price it = parseFloat (price_literal C ''bestbuy'' el) \<and>
           (\<exists>h. link_href C ''bestbuy'' el = Some h \<and> h \<noteq> [] \<and>
                sr_url it = (if startsWith h ''http'' then h else baseUrl @ h))"
proof -
  from assms obtain el where el: "el \<in> set (each C (select C (item_selector ''bestbuy'')))"
    and nm: "name_text C ''bestbuy'' el \<noteq> []"
    and pr: "price_text C ''bestbuy'' el \<noteq> []"
    and ur: "resolve_href baseUrl (link_href C ''bestbuy'' el) \<noteq> []"
    and it: "sr_platform it = ''bestbuy''" "sr_name it = name_text C ''bestbuy'' el"
            "sr_price it = parseFloat (price_literal C ''bestbuy'' el)"
            "sr_url it = resolve_href baseUrl (link_href C ''bestbuy'' el)"
    unfolding parseBestBuySearch_def in_map_filter Let_def
    by (auto simp: item_selector_def name_text_def price_text_def price_literal_def
             link_href_def split: if_splits)
  from resolve_href_nonempty [OF ur] it nm pr el show ?thesis
    by (auto intro!: bexI [of _ el])
qed

lemma parseEbaySearch_items:
  assumes "it \<in> set (parseEbaySearch C baseUrl)"
  shows "\<exists>el\<in>set (each C (select C (item_selector ''ebay''))).
           sr_platform it = ''ebay'' \<and> sr_name it = name_text C ''ebay'' el \<and>
           sr_name it \<noteq> [] \<and> price_text C ''ebay'' el \<noteq> [] \<and>
           sr_price it = parseFloat (price_literal C ''ebay'' el) \<and>
           (\<exists>h. link_href C ''ebay'' el = Some h \<and> h \<noteq> [] \<and>
                sr_url it = (if startsWith h ''http'' then h else baseUrl @ h))"
proof -
  from assms obtain el where el: "el \<in> set (each C (select C (item_selector ''ebay'')))"
    and nm: "name_text C ''ebay'' el \<noteq> []"
    and pr: "price_text C ''ebay'' el \<noteq> []"
    and ur: "resolve_href baseUrl (link_href C ''ebay'' el) \<noteq> []"
    and it: "sr_platform it = ''ebay''" "sr_name it = name_text C ''ebay'' el"
            "sr_price it = parseFloat (price_literal C ''ebay'' el)"
            "sr_url it = resolve_href baseUrl (link_href C ''ebay'' el)"
    unfolding parseEbaySearch_def in_map_filter Let_def
    by (auto simp: item_selector_def name_text_def price_text_def price_literal_def
             link_href_def split: if_splits)
  from resolve_href_nonempty [OF ur] it nm pr el show ?thesis
    by (auto intro!: bexI [of _ el])
qed

lemma parseEtsySearch_items:
  assumes "it \<in> set (parseEtsySearch C baseUrl)"
  shows "\<exists>el\<in>set (each C (select C (item_selector ''etsy''))).
           sr_platform it = ''etsy'' \<and> sr_name it = name_text C ''etsy'' el \<and>
           sr_name it \<noteq> [] \<and> price_text C ''etsy'' el \<noteq> [] \<and>
           sr_price it = parseFloat (price_literal C ''etsy'' el) \<and>
           (\<exists>h. link_href C ''etsy'' el = Some h \<and> h \<noteq> [] \<and>
                sr_url it = (if startsWith h ''http'' then h else baseUrl @ h))"
proof -
  from assms obtain el where el: "el \<in> set (each C (select C (item_selector ''etsy'')))"
    and nm: "name_text C ''etsy'' el \<noteq> []"
    and pr: "price_text C ''etsy'' el \<noteq> []"
    and ur: "resolve_href baseUrl (link_href C ''etsy'' el) \<noteq> []"
    and it: "sr_platform it = ''etsy''" "sr_name it = name_text C ''etsy'' el"
            "sr_price it = parseFloat (price_literal C ''etsy'' el)"
            "sr_url it = resolve_href baseUrl (link_href C ''etsy'' el)"
    unfolding parseEtsySearch_def in_map_filter Let_def
    by (auto simp: item_selector_def name_text_def price_text_def price_literal_def
             link_href_def split: if_splits)
  from resolve_href_nonempty [OF ur] it nm pr el show ?thesis
    by (auto intro!: bexI [of _ el])
qed

lemma parseHomeDepotSearch_items:
  assumes "it \<in> set (parseHomeDepotSearch C baseUrl)"
  shows "\<exists>el\<in>set (each C (select C (item_selector ''homedepot''))).
           sr_platform it = ''homedepot'' \<and> sr_name it = name_text C ''homedepot'' el \<and>
           sr_name it \<noteq> [] \<and> price_text C ''homedepot'' el \<noteq> [] \<and>
           sr_price it = parseFloat (price_literal C ''homedepot'' el) \<and>
           (\<exists>h. link_href C ''homedepot'' el = Some h \<and> h \<noteq> [] \<and>
                sr_url it = (if startsWith h ''http'' then h else baseUrl @ h))"
proof -
  from assms obtain el where el: "el \<in> set (each C (select C (item_selector ''homedepot'')))"
    and nm: "name_text C ''homedepot'' el \<noteq> []"
    and pr: "price_text C ''homedepot'' el \<noteq> []"
    and ur: "resolve_href baseUrl (link_href C ''homedepot'' el) \<noteq> []"
    and it: "sr_platform it = ''homedepot''" "sr_name it = name_text C ''homedepot'' el"
            "sr_price it = parseFloat (price_literal C ''homedepot'' el)"
            "sr_url it = resolve_href baseUrl (link_href C ''homedepot'' el)"
    unfolding parseHomeDepotSearch_def in_map_filter Let_def
    by (auto simp: item_selector_def name_text_def price_text_def price_literal_def
             link_href_def split: if_splits)
  from resolve_href_nonempty [OF ur] it nm pr el show ?thesis
    by (auto intro!: bexI [of _ el])
qed

lemma parseWalmartSearch_items:
  assumes "it \<in> set (parseWalmartSearch C baseUrl)"
  shows "\<exists>el\<in>set (each C (select C (item_selector ''walmart''))).
           sr_platform it = ''walmart'' \<and> sr_name it = name_text C ''walmart'' el \<and>
           sr_name it \<noteq> [] \<and> price_text C ''walmart'' el \<noteq> [] \<and>
           sr_price it = parseFloat (price_literal C ''walmart'' el)"
  using assms unfolding parseWalmartSearch_def in_map_filter Let_def
  by (auto simp: item_selector_def name_text_def price_text_def price_literal_def
           split: if_splits)

lemma parseZaraSearch_items:
  assumes "it \<in> set (parseZaraSearch C baseUrl)"
  shows "\<exists>el\<in>set (each C (select C (item_selector ''zara''))).
           sr_platform it = ''zara'' \<and> sr_name it = name_text C ''zara'' el \<and>
           sr_name it \<noteq> [] \<and> price_text C ''zara'' el \<noteq> [] \<and>
           sr_price it = parseFloat (price_literal C ''zara'' el)"
  using assms unfolding parseZaraSearch_def in_map_filter Let_def
  by (auto simp: item_selector_def name_text_def price_text_def price_literal_def
           split: if_splits)

text \<open>
  C1, as the code has it. For every platform and every input HTML, every item that
  search extraction emits comes from an item element of the page whose trimmed name
  text is non-empty (it is the item's name) and whose price text is non-empty (for
  Amazon: the whole part or the fraction part). The item's price is what
  \<^verbatim>\<open>parseFloat\<close> reads from that text (for Amazon: from the whole part, a point and the
  fraction part), \<open>NaN\<close> when it reads no number. On amazon, bestbuy, ebay, etsy and
  homedepot the element also has a link with a non-empty \<^verbatim>\<open>href\<close>, and the item's URL
  is that \<^verbatim>\<open>href\<close> when it starts with "http" and the base URL followed by it
  otherwise. Nothing is said of how the Walmart and Zara parsers treat the link.
\<close>

theorem search_items_have_name_and_price_text:
  assumes "it \<in> set (parseSearchResults L html platform baseUrl)"
  shows "\<exists>el\<in>set (each (load L html) (select (load L html) (item_selector platform))).
           sr_platform it = platform \<and>
           sr_name it = name_text (load L html) platform el \<and> sr_name it \<noteq> [] \<and>
           price_text (load L html) platform el \<noteq> [] \<and>
           sr_price it = parseFloat (price_literal (load L html) platform el) \<and>
           (platform \<in> {''amazon'', ''bestbuy'', ''ebay'', ''etsy'', ''homedepot''} \<longrightarrow>
              (\<exists>h. link_href (load L html) platform el = Some h \<and> h \<noteq> [] \<and>
                   sr_url it = (if startsWith h ''http'' then h else baseUrl @ h)))"
proof -
  consider "platform = ''amazon''" | "platform = ''bestbuy''" | "platform = ''ebay''"
    | "platform = ''etsy''" | "platform = ''homedepot''" | "platform = ''walmart''"
    | "platform = ''zara''"
    | "platform \<notin>
        {''amazon'', ''bestbuy'', ''ebay'', ''etsy'', ''homedepot'', ''walmart'', ''zara''}"
    unfolding insert_iff empty_iff by argo
  then show ?thesis
  proof cases
    case 1
    with assms have "it \<in> set (parseAmazonSearch (load L html) baseUrl)"
      by (simp add: parseSearchResults_def)
    from parseAmazonSearch_items [OF this] 1 show ?thesis by blast
  next
    case 2
    with assms have "it \<in> set (parseBestBuySearch (load L html) baseUrl)"
      by (simp add: parseSearchResults_def)
    from parseBestBuySearch_items [OF this] 2 show ?thesis by blast
  next
    case 3
    with assms have "it \<in> set (parseEbaySearch (load L html) baseUrl)"
      by (simp add: parseSearchResults_def)
    from parseEbaySearch_items [OF this] 3 show ?thesis by blast
  next
    case 4
    with assms have "it \<in> set (parseEtsySearch (load L html) baseUrl)"
      by (simp add: parseSearchResults_def)
    from parseEtsySearch_items [OF this] 4 show ?thesis by blast
  next
    case 5
    with assms have "it \<in> set (parseHomeDepotSearch (load L html) baseUrl)"
      by (simp add: parseSearchResults_def)
    from parseHomeDepotSearch_items [OF this] 5 show ?thesis by blast
  next
    case 6
    with assms have "it \<in> set (parseWalmartSearch (load L html) baseUrl)"
      by (simp add: parseSearchResults_def)
    from parseWalmartSearch_items [OF this] 6 show ?thesis by auto
  next
    case 7
    with assms have "it \<in> set (parseZaraSearch (load L html) baseUrl)"
      by (simp add: parseSearchResults_def)
    from parseZaraSearch_items [OF this] 7 show ?thesis by auto
  next
    case 8
    with assms show ?thesis by (simp add: parseSearchResults_def)
  qed
qed

text \<open>
  The theorem at the eBay page with one complete item: the item is emitted, and its
  element has the name, a price text and a link.
\<close>

theorem search_items_witness:
  "floor_lamp \<in> set (parseSearchResults fixture_lib ebay_item_html ''ebay''
                       ''https://www.ebay.com'') \<and>
   (\<exists>el\<in>set (each (fixture_load ebay_item_html)
               (select (fixture_load ebay_item_html) (item_selector ''ebay''))).
      name_text (fixture_load ebay_item_html) ''ebay'' el = ''Floor lamp'' \<and>
      price_text (fixture_load ebay_item_html) ''ebay'' el \<noteq> [] \<and>
      (\<exists>h. link_href (fixture_load ebay_item_html) ''ebay'' el = Some h \<and> h \<noteq> []))"
proof -
  have run: "parseSearchResults fixture_lib ebay_item_html ''ebay'' ''https://www.ebay.com'' =
             [floor_lamp]"
    by code_simp
  then have h: "floor_lamp \<in> set (parseSearchResults fixture_lib ebay_item_html ''ebay''
                                    ''https://www.ebay.com'')"
    by simp
  have l: "load fixture_lib = fixture_load" by (simp add: fixture_lib_def)
  have n: "sr_name floor_lamp = ''Floor lamp''" by (simp add: floor_lamp_def)
  from search_items_have_name_and_price_text [OF h] obtain el where
    "el \<in> set (each (fixture_load ebay_item_html)
                 (select (fixture_load ebay_item_html) (item_selector ''ebay'')))"
    "sr_name floor_lamp = name_text (fixture_load ebay_item_html) ''ebay'' el"
    "price_text (fixture_load ebay_item_html) ''ebay'' el \<noteq> []"
    "\<exists>h. link_href (fixture_load ebay_item_html) ''ebay'' el = Some h \<and> h \<noteq> []"
    unfolding l by auto
  with h n show ?thesis by metis
qed

text \<open>
  C1 as stated fails. The eBay page whose price element reads "See price in cart"
  yields an item whose price is \<open>NaN\<close>: the price text is not parseable, and the item
  is emitted. The Walmart page whose item element has no link yields an item whose URL
  is the base URL followed by the text "undefined".
\<close>

theorem search_emits_incomplete_counterexample:
  "parseSearchResults fixture_lib ebay_no_price_html ''ebay'' ''https://www.ebay.com'' =
     [\<lparr>sr_currency = ''USD'', sr_image = None, sr_name = ''Desk lamp'', sr_platform = ''ebay'',
       sr_price = NaN, sr_rating = None, sr_reviews = None,
       sr_url = ''https://www.ebay.com/itm/1''\<rparr>] \<and>
   map (link_href (fixture_load walmart_no_link_html) ''walmart'')
     (each (fixture_load walmart_no_link_html)
        (select (fixture_load walmart_no_link_html) (item_selector ''walmart''))) = [None] \<and>
   parseSearchResults fixture_lib walmart_no_link_html ''walmart'' ''https://www.walmart.com'' =
     [\<lparr>sr_currency = ''USD'', sr_image = None, sr_name = ''Desk lamp'',
       sr_platform = ''walmart'', sr_price = Lit ''5.00'', sr_rating = None,
       sr_reviews = None, sr_url = ''https://www.walmart.comundefined''\<rparr>]"
  by code_simp

subsection \<open>The batch tools\<close>

lemma search_platform_entry:
  "se_platform (fst (search_platform L query platform w)) = platform \<and>
   (se_data (fst (search_platform L query platform w)) = None) \<noteq>
   (se_error (fst (search_platform L query platform w)) = None)"
  by (simp add: search_platform_def search_failed_def
           split: option.split prod.split response.split)

lemma search_loop_entries:
  "map se_platform (fst (search_loop L query platforms results w)) =
     map se_platform results @ platforms \<and>
   (list_all (\<lambda>e. (se_data e = None) \<noteq> (se_error e = None)) results \<longrightarrow>
    list_all (\<lambda>e. (se_data e = None) \<noteq> (se_error e = None))
      (fst (search_loop L query platforms results w)))"
proof (induction platforms arbitrary: results w)
  case Nil
  show ?case by simp
next
  case (Cons platform platforms)
  obtain entry w1 where sp: "search_platform L query platform w = (entry, w1)"
    by (cases "search_platform L query platform w")
  from search_platform_entry [of L query platform w] sp
  have e: "se_platform entry = platform" "(se_data entry = None) \<noteq> (se_error entry = None)"
    by simp_all
  from Cons.IH [of "results @ [entry]" w1] sp e show ?case by simp
qed

text \<open>
  \<open>search_products\<close> returns for every behaviour of the provider, with one entry per
  requested platform, in the order of the request, each holding either the data or the
  error.
\<close>

lemma search_products_entry_per_platform:
  "map se_platform (so_results (fst (search_products L platforms query w))) = platforms \<and>
   list_all (\<lambda>e. (se_data e = None) \<noteq> (se_error e = None))
     (so_results (fst (search_products L platforms query w)))"
  using search_loop_entries [of L query platforms "[]" w]
  by (auto simp: search_products_def split: prod.split)

lemma update_loop_entries:
  "map up_url (fst (update_loop tools urls updates w)) = map up_url updates @ urls \<and>
   (list_all (\<lambda>e. (up_data e = None) \<noteq> (up_error e = None)) updates \<longrightarrow>
    list_all (\<lambda>e. (up_data e = None) \<noteq> (up_error e = None))
      (fst (update_loop tools urls updates w)))"
proof (induction urls arbitrary: updates w)
  case Nil
  show ?case by simp
next
  case (Cons product_url urls)
  obtain res w1 where g: "tools_get_product_details tools product_url w = (res, w1)"
    by (cases "tools_get_product_details tools product_url w")
  show ?case
  proof (cases res)
    case (Inl e)
    from Cons.IH [of "updates @ [\<lparr>up_data = None, up_error = Some (message e),
        up_status = ''error'', up_url = product_url\<rparr>]" w1] g Inl
    show ?thesis by simp
  next
    case (Inr current_data)
    from Cons.IH [of "updates @ [\<lparr>up_data = Some current_data, up_error = None,
        up_status = ''updated'', up_url = product_url\<rparr>]" w1] g Inr
    show ?thesis by simp
  qed
qed

text \<open>
  The same of \<open>get_price_update\<close>, whatever \<^verbatim>\<open>server.tools\<close> is: one entry per URL,
  updated or in error.
\<close>

lemma get_price_update_entry_per_url:
  "map up_url (uo_updates (fst (get_price_update tools now urls w))) = urls \<and>
   list_all (\<lambda>e. (up_data e = None) \<noteq> (up_error e = None))
     (uo_updates (fst (get_price_update tools now urls w)))"
  using update_loop_entries [of tools urls "[]" w]
  by (auto simp: get_price_update_def split: prod.split)

text \<open>
  The two loops on the instance the library creates, where \<^verbatim>\<open>server.tools\<close> is
  \<^verbatim>\<open>undefined\<close>: every round throws the \<^verbatim>\<open>TypeError\<close> inside the \<^verbatim>\<open>try\<close> and no
  request is sent. The loop of \<open>compare_prices\<close> writes one console line per URL and
  adds no entry; the loop of \<open>get_price_update\<close> adds one error entry per URL.
\<close>

lemma compare_loop_tools_undefined:
  "compare_loop None urls comparison_results w =
     (comparison_results,
      w\<lparr>console := console w @
           replicate (length urls) (message (tools_undefined ''get_product_details''))\<rparr>)"
proof (induction urls arbitrary: w)
  case Nil
  show ?case by simp
next
  case (Cons url urls)
  show ?case
    by (simp add: tools_get_product_details_def Cons.IH replicate_append_same)
qed

lemma update_loop_tools_undefined:
  "update_loop None urls updates w =
     (updates @ map (\<lambda>product_url.
          \<lparr>up_data = None, up_error = Some (message (tools_undefined ''get_product_details'')),
           up_status = ''error'', up_url = product_url\<rparr>) urls,
      w)"
  by (induction urls arbitrary: updates) (simp_all add: tools_get_product_details_def)

text \<open>
  Had the host set \<^verbatim>\<open>server.tools\<close> to the registered tools, a URL whose detail fetch
  fails (here: the trigger response carries no snapshot identifier) would still get no
  entry from \<open>compare_prices\<close>, and an error entry from \<open>get_price_update\<close>.
\<close>

lemma registered_tools_drop_failed_url:
  "compare_prices (Some (registered_tools fixture_lib)) ''2025-01-01T00:00:00.000Z'' [] None
      (Some [amazon_url]) (world_of [Resolved (JObj [])]) =
     (Inr \<lparr>cmp_query = None, cmp_results = Some [],
           cmp_timestamp = ''2025-01-01T00:00:00.000Z'', cmp_type = ''url_comparison''\<rparr>,
      \<lparr>pending = [], sent = [Trigger amazon_url ''gd_l7q7dkf244hwjntr0''],
        console = [''Failed to trigger dataset collection'']\<rparr>) \<and>
   get_price_update (Some (registered_tools fixture_lib)) ''2025-01-01T00:00:00.000Z''
      [amazon_url] (world_of [Resolved (JObj [])]) =
     (\<lparr>uo_timestamp = ''2025-01-01T00:00:00.000Z'', uo_updated_products = 1,
       uo_updates = [\<lparr>up_data = None, up_error = Some ''Failed to trigger dataset collection'',
                      up_status = ''error'', up_url = amazon_url\<rparr>]\<rparr>,
      \<lparr>pending = [], sent = [Trigger amazon_url ''gd_l7q7dkf244hwjntr0''], console = []\<rparr>)"
  by code_simp

text \<open>
  C3 on the server as it runs, \<^verbatim>\<open>server.tools\<close> being \<^verbatim>\<open>undefined\<close>, with a
  provider that would answer the trigger request. \<open>compare_prices\<close> on one URL: the
  call of the tool throws the \<^verbatim>\<open>TypeError\<close> inside the \<^verbatim>\<open>try\<close>, the \<^verbatim>\<open>catch\<close>
  writes its message to the console, no request is sent, and the result set has no
  entry for the URL. \<open>get_price_update\<close> on the same URL returns the error entry.
  \<open>compare_prices\<close> on a query throws the \<^verbatim>\<open>TypeError\<close> itself: the batch call
  fails.
\<close>

theorem compare_prices_drops_failed_url:
  "compare_prices None ''2025-01-01T00:00:00.000Z'' [] None (Some [amazon_url])
      (world_of [triggered ''s1'']) =
     (Inr \<lparr>cmp_query = None, cmp_results = Some [],
           cmp_timestamp = ''2025-01-01T00:00:00.000Z'', cmp_type = ''url_comparison''\<rparr>,
      \<lparr>pending = [triggered ''s1''], sent = [],
        console = [''Cannot read properties of undefined (reading 'get_product_details')'']\<rparr>) \<and>
   get_price_update None ''2025-01-01T00:00:00.000Z'' [amazon_url]
      (world_of [triggered ''s1'']) =
     (\<lparr>uo_timestamp = ''2025-01-01T00:00:00.000Z'', uo_updated_products = 1,
       uo_updates =
         [\<lparr>up_data = None,
           up_error = Some ''Cannot read properties of undefined (reading 'get_product_details')'',
           up_status = ''error'', up_url = amazon_url\<rparr>]\<rparr>,
      \<lparr>pending = [triggered ''s1''], sent = [], console = []\<rparr>) \<and>
   compare_prices None ''2025-01-01T00:00:00.000Z'' [''amazon'', ''ebay''] (Some ''desk lamp'')
      None (world_of [triggered ''s1'']) =
     (Inl (TypeError ''Cannot read properties of undefined (reading 'search_products')''),
      \<lparr>pending = [triggered ''s1''], sent = [], console = []\<rparr>)"
  by code_simp

subsection \<open>The product service\<close>

text \<open>
  C10. For a \<^verbatim>\<open>userId\<close> that no row of the user table carries, \<open>trackProduct\<close> and
  \<open>untrackProduct\<close> both throw "User not found" and leave the store as it was: no
  product row and no price row is created, changed or deleted.
\<close>

theorem user_not_found_no_write:
  assumes "\<forall>u\<in>set (users st). u_userId u \<noteq> userId"
  shows "trackProduct G L st userId url productDetails = (Inl (Error ''User not found''), st) \<and>
         untrackProduct st userId productId = (Inl (Error ''User not found''), st)"
proof -
  have "findUnique_user st userId = None"
    using assms by (simp add: findUnique_user_def find_None_iff)
  then show ?thesis by (simp add: trackProduct_def untrackProduct_def)
qed

text \<open>The theorem in a store whose only user is "alice", called for "bob".\<close>

theorem user_not_found_witness:
  "trackProduct \<lparr>new_product_id = ''p-2'', new_price_id = ''r-2''\<rparr> fixture_lib example_store
      ''bob'' ''https://www.ebay.com/itm/1''
      \<lparr>det_currentPrice = Some 500, det_name = Some ''Chair'', det_platform = None\<rparr> =
     (Inl (Error ''User not found''), example_store) \<and>
   untrackProduct example_store ''bob'' ''p-1'' = (Inl (Error ''User not found''), example_store)"
proof -
  have h: "\<forall>u\<in>set (users example_store). u_userId u \<noteq> ''bob''"
    by (simp add: example_store_def)
  show ?thesis using user_not_found_no_write [OF h] by blast
qed

end
